theory Spec2Isabelle
  imports Main
begin

section \<open>JavaScript values\<close>

text \<open>
  The values that cross the bridge: what \<open>JSON.parse\<close> can produce, \<open>undefined\<close>, and
  \<open>Error\<close> objects.  A number is given by its string form (\<open>42\<close>, \<open>0.5\<close>, \<open>1e+21\<close>,
  \<open>NaN\<close>), which is all this program asks of a number.  An object is the list of
  its own properties, with distinct keys; none of them is a function.  An \<open>Error\<close>
  has a name and a \<open>message\<close> property, which a program may have set to any value.
  Cyclic objects, \<open>BigInt\<close>s and functions are not values of the model.
\<close>

datatype jsval =
    JUndefined
  | JNull
  | JBool bool
  | JNum string
  | JStr string
  | JArr "jsval list"
  | JObj "(string \<times> jsval) list"
  | JError string jsval

text \<open>\<open>Array.prototype.join\<close> on strings that are already converted.\<close>

fun join :: "string \<Rightarrow> string list \<Rightarrow> string" where
  "join sep [] = []"
| "join sep [x] = x"
| "join sep (x # y # ys) = x @ sep @ join sep (y # ys)"

text \<open>
  \<open>String(v)\<close>, which is also the conversion inside a template literal and the
  conversion to a property key; \<open>None\<close> where it throws a \<open>TypeError\<close>.  An object
  with an own \<open>toString\<close> property cannot be converted, because the property is not
  a function and the inherited \<open>valueOf\<close> returns the object.  Inside an array,
  \<open>null\<close> and \<open>undefined\<close> print as the empty string.  An \<open>Error\<close> prints its name
  and its converted message.
\<close>

fun js_String :: "jsval \<Rightarrow> string option"
  and js_String_elements :: "jsval list \<Rightarrow> string list option" where
  "js_String JUndefined = Some ''undefined''"
| "js_String JNull = Some ''null''"
| "js_String (JBool b) = Some (if b then ''true'' else ''false'')"
| "js_String (JNum s) = Some s"
| "js_String (JStr s) = Some s"
| "js_String (JArr xs) = map_option (join '','') (js_String_elements xs)"
| "js_String (JObj kvs) = (if map_of kvs ''toString'' = None then Some ''[object Object]'' else None)"
| "js_String (JError n m) =
     (case (if m = JUndefined then Some [] else js_String m) of
        None \<Rightarrow> None
      | Some ms \<Rightarrow> Some (if n = [] then ms else if ms = [] then n else n @ '': '' @ ms))"
| "js_String_elements [] = Some []"
| "js_String_elements (x # xs) =
     (case (if x = JUndefined \<or> x = JNull then Some [] else js_String x) of
        None \<Rightarrow> None
      | Some s \<Rightarrow> map_option ((#) s) (js_String_elements xs))"

text \<open>Truthiness, as \<open>||\<close> tests it.\<close>

fun js_truthy :: "jsval \<Rightarrow> bool" where
  "js_truthy JUndefined = False"
| "js_truthy JNull = False"
| "js_truthy (JBool b) = b"
| "js_truthy (JNum s) = (s \<noteq> ''0'' \<and> s \<noteq> ''NaN'')"
| "js_truthy (JStr s) = (s \<noteq> [])"
| "js_truthy v = True"

text \<open>\<open>error instanceof Error\<close> and \<open>error.message\<close>\<close>

fun instanceof_Error :: "jsval \<Rightarrow> bool" where
  "instanceof_Error (JError n m) = True"
| "instanceof_Error v = False"

fun message :: "jsval \<Rightarrow> jsval" where
  "message (JError n m) = m"
| "message v = JUndefined"

text \<open>\<open>new Error(msg)\<close> with a string\<close>

definition new_Error :: "string \<Rightarrow> jsval" where
  "new_Error msg = JError ''Error'' (JStr msg)"

text \<open>
  The \<open>TypeError\<close>s that the engine itself raises in this program.  Their message
  text is the engine's, so it is a parameter.
\<close>

datatype engine_error = CannotConvert | NotIterable | ResolveNotAFunction | RejectNotAFunction

type_synonym engine = "engine_error \<Rightarrow> string"

definition type_error :: "engine \<Rightarrow> engine_error \<Rightarrow> jsval" where
  "type_error eng k = JError ''TypeError'' (JStr (eng k))"

text \<open>
  What \<open>JSON.parse(JSON.stringify(v))\<close> gives: \<open>undefined\<close> disappears from objects
  and becomes \<open>null\<close> in arrays, numbers that are not finite become \<open>null\<close>, and
  an \<open>Error\<close> becomes an empty object.  \<open>None\<close>: nothing is written for the value.
\<close>

fun json_value :: "jsval \<Rightarrow> jsval option"
  and json_elements :: "jsval list \<Rightarrow> jsval list"
  and json_properties :: "(string \<times> jsval) list \<Rightarrow> (string \<times> jsval) list" where
  "json_value JUndefined = None"
| "json_value JNull = Some JNull"
| "json_value (JBool b) = Some (JBool b)"
| "json_value (JNum s) =
     Some (if s = ''NaN'' \<or> s = ''Infinity'' \<or> s = ''-Infinity'' then JNull else JNum s)"
| "json_value (JStr s) = Some (JStr s)"
| "json_value (JArr xs) = Some (JArr (json_elements xs))"
| "json_value (JObj kvs) = Some (JObj (json_properties kvs))"
| "json_value (JError n m) = Some (JObj [])"
| "json_elements [] = []"
| "json_elements (x # xs) =
     (case json_value x of None \<Rightarrow> JNull | Some v \<Rightarrow> v) # json_elements xs"
| "json_properties [] = []"
| "json_properties (kv # kvs) =
     (case json_value (snd kv) of
        None \<Rightarrow> json_properties kvs
      | Some v \<Rightarrow> (fst kv, v) # json_properties kvs)"

text \<open>
  Property read \<open>o.k\<close> on a parsed value: own properties of an object, \<open>undefined\<close>
  for a missing one and on primitives and arrays (none of the names read by this
  program is inherited), and a \<open>TypeError\<close> on \<open>null\<close> and \<open>undefined\<close>.
\<close>

fun get_prop :: "jsval \<Rightarrow> string \<Rightarrow> jsval option" where
  "get_prop JUndefined k = None"
| "get_prop JNull k = None"
| "get_prop (JObj kvs) k = Some (case map_of kvs k of None \<Rightarrow> JUndefined | Some v \<Rightarrow> v)"
| "get_prop v k = Some JUndefined"

text \<open>
  The decimal digits of an integer: the string form of a time in milliseconds,
  which is an integer below \<open>10^21\<close>.
\<close>

definition digit_char :: "nat \<Rightarrow> char" where
  "digit_char n = ''0123456789'' ! n"

fun nat_digits :: "nat \<Rightarrow> string" where
  "nat_digits n = (if n < 10 then [digit_char n] else nat_digits (n div 10) @ [digit_char (n mod 10)])"

definition int_digits :: "int \<Rightarrow> string" where
  "int_digits i = (if i < 0 then CHR ''-'' # nat_digits (nat (- i)) else nat_digits (nat i))"

section \<open>Insertion-ordered maps\<close>

text \<open>
  A JavaScript \<open>Map\<close> keeps keys in insertion order; \<open>set\<close> on a present key replaces
  the value in place, on a new key appends.
\<close>

type_synonym ('k, 'v) jsmap = "('k \<times> 'v) list"

fun map_set :: "'k \<Rightarrow> 'v \<Rightarrow> ('k, 'v) jsmap \<Rightarrow> ('k, 'v) jsmap" where
  "map_set k v [] = [(k, v)]"
| "map_set k v ((k', v') # r) = (if k' = k then (k, v) # r else (k', v') # map_set k v r)"

definition map_get :: "('k, 'v) jsmap \<Rightarrow> 'k \<Rightarrow> 'v option" where
  "map_get m k = map_of m k"

definition map_has :: "('k, 'v) jsmap \<Rightarrow> 'k \<Rightarrow> bool" where
  "map_has m k = (map_of m k \<noteq> None)"

definition map_keys :: "('k, 'v) jsmap \<Rightarrow> 'k list" where
  "map_keys m = map fst m"

section \<open>The interface manager (JavaScriptInterface.ts)\<close>

text \<open>
  A settled or unsettled promise, and what calling a handler can do: return a plain
  value, throw, or return a promise.
\<close>

datatype 'a promise = Fulfilled 'a | Rejected jsval | Unsettled

datatype completion = Returns jsval | Throws jsval | ReturnsPromise "jsval promise"

type_synonym handler = "jsval list \<Rightarrow> completion"

text \<open>\<open>await\<close> on what a call produced.\<close>

fun await :: "completion \<Rightarrow> jsval promise" where
  "await (Returns v) = Fulfilled v"
| "await (Throws e) = Rejected e"
| "await (ReturnsPromise p) = p"

record JavaScriptInterfaceMethod =
  name :: string
  handler :: handler

record JavaScriptInterfaceObject =
  iname :: string
  methods :: "JavaScriptInterfaceMethod list"

record JavaScriptInterfaceConfig =
  interfaces_cfg :: "JavaScriptInterfaceObject list"
  enableDebugLogging_cfg :: "bool option"

text \<open>
  The call envelope as it exists at run time: the TypeScript field types are erased,
  and the message handler passes a parsed value on unchecked, so each field is a value.
\<close>

record JavaScriptInterfaceCall =
  interfaceName :: jsval
  methodName :: jsval
  args :: jsval
  callId :: jsval

record JavaScriptInterfaceResponse =
  rtype :: string
  rcallId :: jsval
  success :: bool
  result :: "jsval option"
  error :: "jsval option"

record manager =
  interfaces :: "(string, (string, handler) jsmap) jsmap"
  enableDebugLogging :: bool

definition new_manager :: manager where
  "new_manager = \<lparr>interfaces = [], enableDebugLogging = False\<rparr>"

text \<open>The inner loop of \<open>configure\<close>: \<open>methodMap.set(method.name, method.handler)\<close>.\<close>

fun add_methods :: "JavaScriptInterfaceMethod list \<Rightarrow> (string, handler) jsmap \<Rightarrow> (string, handler) jsmap" where
  "add_methods [] mm = mm"
| "add_methods (x # xs) mm = add_methods xs (map_set (name x) (handler x) mm)"

text \<open>The outer loop: \<open>this.interfaces.set(interfaceObj.name, methodMap)\<close>.\<close>

fun add_interfaces ::
  "JavaScriptInterfaceObject list \<Rightarrow> (string, (string, handler) jsmap) jsmap \<Rightarrow> (string, (string, handler) jsmap) jsmap" where
  "add_interfaces [] im = im"
| "add_interfaces (x # xs) im = add_interfaces xs (map_set (iname x) (add_methods (methods x) []) im)"

definition configure :: "JavaScriptInterfaceConfig \<Rightarrow> manager \<Rightarrow> manager" where
  "configure config m =
     \<lparr>interfaces = add_interfaces (interfaces_cfg config) [],
      enableDebugLogging = (case enableDebugLogging_cfg config of None \<Rightarrow> False | Some b \<Rightarrow> b)\<rparr>"

definition hasInterface :: "manager \<Rightarrow> string \<Rightarrow> bool" where
  "hasInterface m n = map_has (interfaces m) n"

definition hasMethod :: "manager \<Rightarrow> string \<Rightarrow> string \<Rightarrow> bool" where
  "hasMethod m i n = (case map_get (interfaces m) i of None \<Rightarrow> False | Some mm \<Rightarrow> map_has mm n)"

definition getInterfaceNames :: "manager \<Rightarrow> string list" where
  "getInterfaceNames m = map_keys (interfaces m)"


subsection \<open>Dispatch: \<open>handleCall\<close>\<close>

definition sq :: string where
  "sq = [CHR 0x27]"

definition nl :: string where
  "nl = [CHR 0x0A]"

text \<open>
  What \<open>handleCall\<close> does besides returning: the console lines (which line, with the
  values it prints; the text is not modelled) and the one call of a handler, with
  the interface and method it was found under and the arguments it receives.
\<close>

datatype effect =
    LogCalling jsval jsval jsval
  | Invoke string string "jsval list"
  | LogReturned jsval jsval jsval
  | LogError jsval jsval jsval

text \<open>
  \<open>Map.get(k)\<close> on a map whose keys are strings: a key that is not a string is
  never found.
\<close>

fun get_by_value :: "(string, 'v) jsmap \<Rightarrow> jsval \<Rightarrow> 'v option" where
  "get_by_value m (JStr s) = map_get m s"
| "get_by_value m v = None"

fun name_of :: "jsval \<Rightarrow> string" where
  "name_of (JStr s) = s"
| "name_of v = []"

text \<open>
  The spread \<open>...args\<close>: an array gives its elements, a string its characters, and
  anything else is not iterable.
\<close>

fun spread :: "jsval \<Rightarrow> jsval list option" where
  "spread (JArr xs) = Some xs"
| "spread (JStr s) = Some (map (\<lambda>c. JStr [c]) s)"
| "spread v = None"

text \<open>
  The three template literals with names in them; \<open>None\<close> where a conversion throws.
  The conversions run in the order of the text.
\<close>

definition interface_not_found :: "jsval \<Rightarrow> string option" where
  "interface_not_found i =
     (case js_String i of
        None \<Rightarrow> None
      | Some a \<Rightarrow> Some (''Interface '' @ sq @ a @ sq @ '' not found''))"

definition method_not_found :: "jsval \<Rightarrow> jsval \<Rightarrow> string option" where
  "method_not_found n i =
     (case js_String n of
        None \<Rightarrow> None
      | Some a \<Rightarrow>
          (case js_String i of
             None \<Rightarrow> None
           | Some b \<Rightarrow> Some (''Method '' @ sq @ a @ sq @ '' not found on interface '' @ sq @ b @ sq)))"

definition names_text :: "jsval \<Rightarrow> jsval \<Rightarrow> string option" where
  "names_text i n =
     (case js_String i of
        None \<Rightarrow> None
      | Some a \<Rightarrow> (case js_String n of None \<Rightarrow> None | Some b \<Rightarrow> Some (a @ ''.'' @ b)))"

text \<open>
  \<open>throw new Error(`...`)\<close>: what is thrown is the new error, or the \<open>TypeError\<close> of
  the conversion inside the template.
\<close>

definition thrown_Error :: "engine \<Rightarrow> string option \<Rightarrow> jsval" where
  "thrown_Error eng t = (case t of None \<Rightarrow> type_error eng CannotConvert | Some s \<Rightarrow> new_Error s)"

text \<open>
  One \<open>if (this.enableDebugLogging) console...\<close> statement: every one of them
  builds a text from the two names first.  \<open>Inl\<close>: the exception thrown.
\<close>

definition log_line :: "engine \<Rightarrow> manager \<Rightarrow> JavaScriptInterfaceCall \<Rightarrow> effect \<Rightarrow> jsval + effect list" where
  "log_line eng m call e =
     (if enableDebugLogging m
      then (case names_text (interfaceName call) (methodName call) of
              None \<Rightarrow> Inl (type_error eng CannotConvert)
            | Some t \<Rightarrow> Inr [e])
      else Inr [])"

text \<open>
  The \<open>try\<close> block up to its \<open>return\<close>: the effects, and the result to return, the
  exception thrown, or no continuation at all when the awaited promise never
  settles.
\<close>

definition try_block :: "engine \<Rightarrow> manager \<Rightarrow> JavaScriptInterfaceCall \<Rightarrow> effect list \<times> jsval promise" where
  "try_block eng m call =
     (case get_by_value (interfaces m) (interfaceName call) of
        None \<Rightarrow> ([], Rejected (thrown_Error eng (interface_not_found (interfaceName call))))
      | Some interfaceMap \<Rightarrow>
          (case get_by_value interfaceMap (methodName call) of
             None \<Rightarrow>
               ([], Rejected (thrown_Error eng (method_not_found (methodName call) (interfaceName call))))
           | Some h \<Rightarrow>
               (case spread (args call) of
                  None \<Rightarrow> ([], Rejected (type_error eng NotIterable))
                | Some xs \<Rightarrow>
                    (case await (h xs) of
                       Fulfilled v \<Rightarrow>
                         (case log_line eng m call (LogReturned (interfaceName call) (methodName call) v) of
                            Inl t \<Rightarrow>
                              ([Invoke (name_of (interfaceName call)) (name_of (methodName call)) xs],
                               Rejected t)
                          | Inr l \<Rightarrow>
                              (Invoke (name_of (interfaceName call)) (name_of (methodName call)) xs # l,
                               Fulfilled v))
                     | Rejected e \<Rightarrow>
                         ([Invoke (name_of (interfaceName call)) (name_of (methodName call)) xs],
                          Rejected e)
                     | Unsettled \<Rightarrow>
                         ([Invoke (name_of (interfaceName call)) (name_of (methodName call)) xs],
                          Unsettled)))))"

text \<open>
  The \<open>catch\<close> block: \<open>error.message\<close> as it is for an \<open>Error\<close>, \<open>String(error)\<close>
  otherwise, and an exception thrown here leaves the function.
\<close>

definition catch_block ::
  "engine \<Rightarrow> manager \<Rightarrow> JavaScriptInterfaceCall \<Rightarrow> jsval \<Rightarrow> effect list \<times> JavaScriptInterfaceResponse promise" where
  "catch_block eng m call e =
     (case (if instanceof_Error e then Some (message e) else map_option JStr (js_String e)) of
        None \<Rightarrow> ([], Rejected (type_error eng CannotConvert))
      | Some errorMessage \<Rightarrow>
          (case log_line eng m call (LogError (interfaceName call) (methodName call) errorMessage) of
             Inl t \<Rightarrow> ([], Rejected t)
           | Inr l \<Rightarrow>
               (l, Fulfilled \<lparr>rtype = ''JS_INTERFACE_RESPONSE'', rcallId = callId call,
                              success = False, result = None, error = Some errorMessage\<rparr>)))"

text \<open>
  \<open>handleCall\<close>: the first log statement stands before the \<open>try\<close>, so an exception
  in it leaves the function.
\<close>

definition handleCall ::
  "engine \<Rightarrow> manager \<Rightarrow> JavaScriptInterfaceCall \<Rightarrow> effect list \<times> JavaScriptInterfaceResponse promise" where
  "handleCall eng m call =
     (case log_line eng m call (LogCalling (interfaceName call) (methodName call) (args call)) of
        Inl t \<Rightarrow> ([], Rejected t)
      | Inr logged \<Rightarrow>
          (case try_block eng m call of
             (effs, Fulfilled v) \<Rightarrow>
               (logged @ effs,
                Fulfilled \<lparr>rtype = ''JS_INTERFACE_RESPONSE'', rcallId = callId call,
                           success = True, result = Some v, error = None\<rparr>)
           | (effs, Rejected e) \<Rightarrow>
               (case catch_block eng m call e of (l, r) \<Rightarrow> (logged @ effs @ l, r))
           | (effs, Unsettled) \<Rightarrow> (logged @ effs, Unsettled)))"

subsection \<open>The injected script: \<open>generateInjectionScript\<close>\<close>

text \<open>The fixed text of the three template literals, between the spliced names.\<close>

definition stub_text_1 :: string where
  "stub_text_1 = concat
    [nl, ''        '']"

definition stub_text_2 :: string where
  "stub_text_2 = concat
    ['': function(...args) {'',
     nl, ''          return new Promise((resolve, reject) => {'',
     nl, ''            const callId = '', sq, ''call_'', sq, '' + Date.now() + '', sq, ''_'', sq, '' + Math.random().toString(36).substr(2, 9);'',
     nl, ''            '',
     nl, ''            // Store the promise callbacks'',
     nl, ''            window.__jsInterfaceCallbacks = window.__jsInterfaceCallbacks || {};'',
     nl, ''            window.__jsInterfaceCallbacks[callId] = { resolve, reject };'',
     nl, ''            '',
     nl, ''            // Send the call to React Native'',
     nl, ''            const message = {'',
     nl, ''              type: '', sq, ''JS_INTERFACE_CALL'', sq, '','',
     nl, ''              interfaceName: '', sq]"

definition stub_text_3 :: string where
  "stub_text_3 = concat
    [sq, '','',
     nl, ''              methodName: '', sq]"

definition stub_text_4 :: string where
  "stub_text_4 = concat
    [sq, '','',
     nl, ''              args: args,'',
     nl, ''              callId: callId'',
     nl, ''            };'',
     nl, ''            '',
     nl, ''            if (window.ReactNativeWebView && window.ReactNativeWebView.postMessage) {'',
     nl, ''              window.ReactNativeWebView.postMessage(JSON.stringify(message));'',
     nl, ''            } else {'',
     nl, ''              reject(new Error('', sq, ''ReactNativeWebView not available'', sq, ''));'',
     nl, ''            }'',
     nl, ''          });'',
     nl, ''        }'']"

definition object_text_1 :: string where
  "object_text_1 = concat
    [nl, ''        window.'']"

definition object_text_2 :: string where
  "object_text_2 = concat
    ['' = {'']"

definition object_text_3 :: string where
  "object_text_3 = concat
    [nl, ''        };'']"

definition script_text_1 :: string where
  "script_text_1 = concat
    [nl, ''      (function() {'',
     nl, ''        // Initialize callback storage'',
     nl, ''        window.__jsInterfaceCallbacks = window.__jsInterfaceCallbacks || {};'',
     nl, ''        '',
     nl, ''        // Handle responses from React Native'',
     nl, ''        window.__handleJSInterfaceResponse = function(response) {'',
     nl, ''          const callback = window.__jsInterfaceCallbacks[response.callId];'',
     nl, ''          if (callback) {'',
     nl, ''            delete window.__jsInterfaceCallbacks[response.callId];'',
     nl, ''            '',
     nl, ''            if (response.success) {'',
     nl, ''              callback.resolve(response.result);'',
     nl, ''            } else {'',
     nl, ''              callback.reject(new Error(response.error || '', sq, ''Unknown error'', sq, ''));'',
     nl, ''            }'',
     nl, ''          }'',
     nl, ''        };'',
     nl, ''        '',
     nl, ''        // Define interface objects'',
     nl, ''        '']"

definition script_text_2 :: string where
  "script_text_2 = concat
    [nl, ''      })();'',
     nl, ''    '']"

definition methodDefinition :: "string \<Rightarrow> string \<Rightarrow> string" where
  "methodDefinition iface meth =
     stub_text_1 @ meth @ stub_text_2 @ iface @ stub_text_3 @ meth @ stub_text_4"

definition interfaceDefinition :: "string \<Rightarrow> string list \<Rightarrow> string" where
  "interfaceDefinition iface meths =
     object_text_1 @ iface @ object_text_2
       @ join '','' (map (methodDefinition iface) meths) @ object_text_3"

text \<open>
  \<open>this.interfaces.get(interfaceName)!\<close> for a name taken from the keys of the same
  map: the lookup cannot miss, and the model gives the empty map where it would.
\<close>

definition methodNamesOf :: "manager \<Rightarrow> string \<Rightarrow> string list" where
  "methodNamesOf m iface =
     (case map_get (interfaces m) iface of None \<Rightarrow> [] | Some methodMap \<Rightarrow> map_keys methodMap)"

definition generateInjectionScript :: "manager \<Rightarrow> string" where
  "generateInjectionScript m =
     (let interfaceNames = map_keys (interfaces m)
      in if length interfaceNames = 0 then []
         else script_text_1
                @ join nl (map (\<lambda>n. interfaceDefinition n (methodNamesOf m n)) interfaceNames)
                @ script_text_2)"


text \<open>The handler calls recorded in a trace, in order.\<close>

fun invocations :: "effect list \<Rightarrow> (string \<times> string \<times> jsval list) list" where
  "invocations [] = []"
| "invocations (Invoke i n xs # es) = (i, n, xs) # invocations es"
| "invocations (e # es) = invocations es"

subsection \<open>What a configuration asks for\<close>

text \<open>
  The spec's reading of a configuration, for comparison with \<open>configure\<close>: of several
  capability objects with one name the last one counts, and of several methods with
  one name inside it the last one counts.
\<close>

definition spec_interface :: "JavaScriptInterfaceConfig \<Rightarrow> string \<Rightarrow> JavaScriptInterfaceObject option" where
  "spec_interface config i = find (\<lambda>x. iname x = i) (rev (interfaces_cfg config))"

definition spec_handler :: "JavaScriptInterfaceObject \<Rightarrow> string \<Rightarrow> handler option" where
  "spec_handler x n = map_option handler (find (\<lambda>y. name y = n) (rev (methods x)))"

section \<open>The host's message handler (WebView.ios.tsx)\<close>

text \<open>The fixed text of the response snippet around the serialised response.\<close>

definition response_text_1 :: string where
  "response_text_1 = concat
    [nl, ''                if (window.__handleJSInterfaceResponse) {'',
     nl, ''                  window.__handleJSInterfaceResponse('']"

definition response_text_2 :: string where
  "response_text_2 = concat
    ['');'',
     nl, ''                }'',
     nl, ''              '']"


text \<open>
  What the code takes from its platform: the message texts of the engine's errors,
  \<open>JSON.parse\<close> (\<open>None\<close> where it throws), \<open>JSON.stringify\<close> on a response (\<open>None\<close>
  where it throws), and \<open>Commands.injectJavaScript\<close> (which gives the exception it
  throws, if it throws).
\<close>

record platform =
  messages :: engine
  parse :: "string \<Rightarrow> jsval option"
  stringify :: "JavaScriptInterfaceResponse \<Rightarrow> string option"
  injectJavaScript :: "string \<Rightarrow> jsval option"

text \<open>
  What the component holds when a message arrives: the manager (or \<open>null\<close>), whether
  the native view is mounted, and the embedder's \<open>onMessage\<close> prop, if there is one;
  called with the event, it returns or throws.
\<close>

record component =
  jsInterfaceManager :: "manager option"
  webViewRef :: bool
  onMessageProp :: "(string \<Rightarrow> jsval option) option"

text \<open>
  What \<open>enhancedOnMessage\<close> does: hands a call to the dispatcher (with the dispatcher's
  own trace), injects script text into the page, calls the embedder's handler with
  the event.
\<close>

datatype host_effect =
    Dispatch JavaScriptInterfaceCall "effect list"
  | InjectJavaScript string
  | OnMessage string

datatype status = Completed | Failed jsval | Waiting

text \<open>
  The unchecked cast \<open>data as JavaScriptInterfaceCall\<close> followed by the destructuring
  in \<open>handleCall\<close>: each field is whatever the parsed value has under that name.
\<close>

definition field :: "jsval \<Rightarrow> string \<Rightarrow> jsval" where
  "field d k = (case get_prop d k of None \<Rightarrow> JUndefined | Some v \<Rightarrow> v)"

definition as_call :: "jsval \<Rightarrow> JavaScriptInterfaceCall" where
  "as_call d = \<lparr>interfaceName = field d ''interfaceName'', methodName = field d ''methodName'',
                args = field d ''args'', callId = field d ''callId''\<rparr>"

definition responseScript :: "string \<Rightarrow> string" where
  "responseScript json = response_text_1 @ json @ response_text_2"

text \<open>
  Sending the response back, inside the \<open>try\<close>: \<open>Inl\<close> when the statements ran
  through, \<open>Inr\<close> when one of them threw.
\<close>

definition send_response ::
  "platform \<Rightarrow> component \<Rightarrow> JavaScriptInterfaceResponse \<Rightarrow> host_effect list + host_effect list" where
  "send_response P c response =
     (if webViewRef c
      then (case stringify P response of
              None \<Rightarrow> Inr []
            | Some json \<Rightarrow>
                (case injectJavaScript P (responseScript json) of
                   None \<Rightarrow> Inl [InjectJavaScript (responseScript json)]
                 | Some e \<Rightarrow> Inr []))
      else Inl [])"

text \<open>
  The \<open>try\<close> block.  \<open>Inl\<close>: the block returned (or is suspended at the \<open>await\<close>),
  and the handler is over.  \<open>Inr\<close>: control reaches the code after the block, either
  because the \<open>if\<close> was not taken or because an exception was caught; the \<open>catch\<close>
  is empty.
\<close>

definition message_try ::
  "platform \<Rightarrow> component \<Rightarrow> string \<Rightarrow> (host_effect list \<times> status) + host_effect list" where
  "message_try P c data =
     (case parse P data of
        None \<Rightarrow> Inr []
      | Some d \<Rightarrow>
          (case get_prop d ''type'' of
             None \<Rightarrow> Inr []
           | Some ty \<Rightarrow>
               if ty = JStr ''JS_INTERFACE_CALL'' then
                 (case jsInterfaceManager c of
                    None \<Rightarrow> Inr []
                  | Some m \<Rightarrow>
                      (case handleCall (messages P) m (as_call d) of
                         (effs, Fulfilled response) \<Rightarrow>
                           (case send_response P c response of
                              Inl sent \<Rightarrow> Inl (Dispatch (as_call d) effs # sent, Completed)
                            | Inr sent \<Rightarrow> Inr (Dispatch (as_call d) effs # sent))
                       | (effs, Rejected e) \<Rightarrow> Inr [Dispatch (as_call d) effs]
                       | (effs, Unsettled) \<Rightarrow> Inl ([Dispatch (as_call d) effs], Waiting)))
               else Inr []))"

text \<open>
  \<open>enhancedOnMessage\<close>: after the \<open>try\<close>, the embedder's handler is called with the
  event; an exception it throws leaves the function.
\<close>

definition enhancedOnMessage :: "platform \<Rightarrow> component \<Rightarrow> string \<Rightarrow> host_effect list \<times> status" where
  "enhancedOnMessage P c data =
     (case message_try P c data of
        Inl r \<Rightarrow> r
      | Inr effs \<Rightarrow>
          (case onMessageProp c of
             None \<Rightarrow> (effs, Completed)
           | Some f \<Rightarrow>
               (case f data of
                  None \<Rightarrow> (effs @ [OnMessage data], Completed)
                | Some e \<Rightarrow> (effs @ [OnMessage data], Failed e))))"

text \<open>The calls handed to the dispatcher and the events handed to the embedder.\<close>

fun dispatched :: "host_effect list \<Rightarrow> JavaScriptInterfaceCall list" where
  "dispatched [] = []"
| "dispatched (Dispatch call effs # es) = call # dispatched es"
| "dispatched (e # es) = dispatched es"

fun delivered :: "host_effect list \<Rightarrow> string list" where
  "delivered [] = []"
| "delivered (OnMessage data # es) = data # delivered es"
| "delivered (e # es) = delivered es"

section \<open>The injected script at run time\<close>

text \<open>
  The two functions the generated text defines, as they run in the page once the
  script has been executed: the stub of one method and the response handler.  The
  script creates the pending-call table before it defines either, so the table
  exists, and the stub's own \<open>window.__jsInterfaceCallbacks || {}\<close> keeps it.  The
  page state they touch: the pending-call table \<open>window.__jsInterfaceCallbacks\<close> (a
  plain object, from callId to the \<open>resolve\<close>/\<open>reject\<close> pair of one promise, which
  is named by a number), whether \<open>window.ReactNativeWebView.postMessage\<close> is there,
  the envelopes posted so far (as the host's \<open>JSON.parse\<close> will read them), every
  call of a \<open>resolve\<close> or \<open>reject\<close> so far, and the number of promises created.
\<close>

datatype settlement = Resolve jsval | Reject jsval

record window =
  jsInterfaceCallbacks :: "(string, nat) jsmap"
  transport :: bool
  posted :: "JavaScriptInterfaceCall list"
  settled :: "(nat \<times> settlement) list"
  promises :: nat

text \<open>
  A promise takes the first settlement and ignores the later ones.
\<close>

definition promise_state :: "window \<Rightarrow> nat \<Rightarrow> settlement option" where
  "promise_state w p = map_of (settled w) p"

text \<open>
  Reading \<open>table[key]\<close> on a plain object: an own property, else a property inherited
  from \<open>Object.prototype\<close>, else \<open>undefined\<close>.
\<close>

definition object_prototype_names :: "string list" where
  "object_prototype_names =
     [''constructor'', ''__defineGetter__'', ''__defineSetter__'', ''hasOwnProperty'',
      ''__lookupGetter__'', ''__lookupSetter__'', ''isPrototypeOf'', ''propertyIsEnumerable'',
      ''toString'', ''valueOf'', ''__proto__'', ''toLocaleString'']"

datatype 'a property = Own 'a | Inherited | Missing

definition object_get :: "(string, 'a) jsmap \<Rightarrow> string \<Rightarrow> 'a property" where
  "object_get tbl k =
     (case map_of tbl k of
        Some v \<Rightarrow> Own v
      | None \<Rightarrow> if k \<in> set object_prototype_names then Inherited else Missing)"

text \<open>\<open>delete table[key]\<close>\<close>

definition object_delete :: "(string, 'a) jsmap \<Rightarrow> string \<Rightarrow> (string, 'a) jsmap" where
  "object_delete tbl k = filter (\<lambda>kv. fst kv \<noteq> k) tbl"

text \<open>
  \<open>'call_' + Date.now() + '_' + Math.random().toString(36).substr(2, 9)\<close>: the clock
  (milliseconds, an integer) and the random suffix are inputs.
\<close>

definition make_callId :: "int \<Rightarrow> string \<Rightarrow> string" where
  "make_callId now rnd = ''call_'' @ int_digits now @ ''_'' @ rnd"

text \<open>
  The stub \<open>function(...args)\<close> of method \<open>meth\<close> on interface \<open>iface\<close>: returns the new
  promise.  The executor runs at once: it stores the callbacks, builds the
  envelope, and posts its JSON text or rejects.
\<close>

definition stub :: "string \<Rightarrow> string \<Rightarrow> int \<Rightarrow> string \<Rightarrow> jsval list \<Rightarrow> window \<Rightarrow> nat \<times> window" where
  "stub iface meth now rnd arguments w =
     (let p = promises w;
          cid = make_callId now rnd;
          w1 = w\<lparr>promises := Suc p, jsInterfaceCallbacks := map_set cid p (jsInterfaceCallbacks w)\<rparr>;
          msg = \<lparr>interfaceName = JStr iface, methodName = JStr meth,
                 args = JArr (json_elements arguments), callId = JStr cid\<rparr>
      in if transport w1 then (p, w1\<lparr>posted := posted w1 @ [msg]\<rparr>)
         else (p, w1\<lparr>settled := settled w1
                        @ [(p, Reject (new_Error ''ReactNativeWebView not available''))]\<rparr>))"

text \<open>\<open>response.error || 'Unknown error'\<close>: the left side when it is truthy.\<close>

definition error_or_unknown :: "jsval option \<Rightarrow> jsval" where
  "error_or_unknown e =
     (case e of
        None \<Rightarrow> JStr ''Unknown error''
      | Some v \<Rightarrow> if js_truthy v then v else JStr ''Unknown error'')"

text \<open>
  \<open>window.__handleJSInterfaceResponse\<close>: the new page state and the exception thrown,
  if any.  The callId is converted to a property key, which can throw.  A value
  inherited from \<open>Object.prototype\<close> is truthy and has neither \<open>resolve\<close> nor
  \<open>reject\<close>, so calling either throws.  \<open>new Error(v)\<close> converts \<open>v\<close> to a string,
  which can throw, after the entry has been deleted.
\<close>

definition handleJSInterfaceResponse ::
  "engine \<Rightarrow> JavaScriptInterfaceResponse \<Rightarrow> window \<Rightarrow> window \<times> jsval option" where
  "handleJSInterfaceResponse eng response w =
     (case js_String (rcallId response) of
        None \<Rightarrow> (w, Some (type_error eng CannotConvert))
      | Some key \<Rightarrow>
          (case object_get (jsInterfaceCallbacks w) key of
             Missing \<Rightarrow> (w, None)
           | Inherited \<Rightarrow>
               (w, Some (type_error eng
                     (if success response then ResolveNotAFunction else RejectNotAFunction)))
           | Own p \<Rightarrow>
               (let w1 = w\<lparr>jsInterfaceCallbacks := object_delete (jsInterfaceCallbacks w) key\<rparr>
                in if success response
                   then (w1\<lparr>settled := settled w1
                               @ [(p, Resolve (case result response of None \<Rightarrow> JUndefined | Some v \<Rightarrow> v))]\<rparr>,
                         None)
                   else (case js_String (error_or_unknown (error response)) of
                           None \<Rightarrow> (w1, Some (type_error eng CannotConvert))
                         | Some s \<Rightarrow>
                             (w1\<lparr>settled := settled w1 @ [(p, Reject (new_Error s))]\<rparr>, None)))))"



section \<open>Executing the generated script\<close>

text \<open>
  What the text that \<open>generateInjectionScript\<close> returns defines when the page
  executes it.  The text is read as the fixed opening (which creates the
  pending-call table and the response handler), then statements
  \<open>window.Identifier = { Identifier: function(...args) { ... }, ... };\<close> whose
  function bodies are the body of the stub, with an interface name and a method
  name as string literals, then the fixed closing.  An identifier is a letter, \<open>_\<close>
  or \<open>$\<close> followed by letters, digits, \<open>_\<close> and \<open>$\<close>.  Any other text is outside the
  reader, and the model defines nothing for it.
\<close>

definition is_identifier_part :: "char \<Rightarrow> bool" where
  "is_identifier_part c =
     (c \<in> set ''abcdefghijklmnopqrstuvwxyzABCDEFGHIJKLMNOPQRSTUVWXYZ0123456789_$'')"

definition is_digit :: "char \<Rightarrow> bool" where
  "is_digit c = (c \<in> set ''0123456789'')"

definition is_identifier :: "string \<Rightarrow> bool" where
  "is_identifier s = (s \<noteq> [] \<and> \<not> is_digit (hd s) \<and> list_all is_identifier_part s)"

definition is_space :: "char \<Rightarrow> bool" where
  "is_space c = (c = CHR '' '' \<or> c = CHR 0x0A)"

definition skip_space :: "string \<Rightarrow> string" where
  "skip_space s = dropWhile is_space s"

text \<open>\<open>expect l s\<close>: the rest of \<open>s\<close> after the literal text \<open>l\<close>, if \<open>s\<close> starts with it.\<close>

fun expect :: "string \<Rightarrow> string \<Rightarrow> string option" where
  "expect [] s = Some s"
| "expect (c # cs) [] = None"
| "expect (c # cs) (d # ds) = (if c = d then expect cs ds else None)"

definition read_identifier :: "string \<Rightarrow> (string \<times> string) option" where
  "read_identifier s =
     (let n = takeWhile is_identifier_part s
      in if is_identifier n then Some (n, dropWhile is_identifier_part s) else None)"

text \<open>
  The characters of a single-quoted string literal that stand for themselves: all
  but the quote, the backslash and the line end.  \<open>read_literal\<close> gives the value
  of the literal up to the first other character.
\<close>

definition literal_char :: "char \<Rightarrow> bool" where
  "literal_char c = (c \<noteq> CHR 0x27 \<and> c \<noteq> CHR 0x5C \<and> c \<noteq> CHR 0x0A)"

definition read_literal :: "string \<Rightarrow> string \<times> string" where
  "read_literal s = (takeWhile literal_char s, dropWhile literal_char s)"

text \<open>
  One entry of the object literal, \<open>Identifier: function(...args) { ... }\<close>, where
  the body is the stub's: the key, and the two names in the body's literals.
\<close>

definition read_method :: "string \<Rightarrow> ((string \<times> string \<times> string) \<times> string) option" where
  "read_method s =
     (case read_identifier (skip_space s) of
        None \<Rightarrow> None
      | Some (k, r) \<Rightarrow>
          (case expect stub_text_2 r of
             None \<Rightarrow> None
           | Some r1 \<Rightarrow>
               (case expect stub_text_3 (snd (read_literal r1)) of
                  None \<Rightarrow> None
                | Some r2 \<Rightarrow>
                    (case expect stub_text_4 (snd (read_literal r2)) of
                       None \<Rightarrow> None
                     | Some r3 \<Rightarrow> Some ((k, fst (read_literal r1), fst (read_literal r2)), r3)))))"

lemma expect_length: "expect l s = Some r \<Longrightarrow> length r \<le> length s"
  by (induction l s rule: expect.induct) (auto split: if_splits)

lemma expect_shorter: "l \<noteq> [] \<Longrightarrow> expect l s = Some r \<Longrightarrow> length r < length s"
proof (induction l s rule: expect.induct)
  case (1 s)
  then show ?case by simp
next
  case (2 c cs)
  then show ?case by simp
next
  case (3 c cs d ds)
  then have "expect cs ds = Some r" by (simp split: if_splits)
  from expect_length [OF this] show ?case by simp
qed

lemma read_identifier_length: "read_identifier s = Some (n, r) \<Longrightarrow> length r \<le> length s"
  by (auto simp: read_identifier_def Let_def length_dropWhile_le split: if_splits)

lemma skip_space_length: "length (skip_space s) \<le> length s"
  by (simp add: skip_space_def length_dropWhile_le)

lemma read_literal_length: "length (snd (read_literal s)) \<le> length s"
  by (simp add: read_literal_def length_dropWhile_le)

lemma stub_text_2_nonempty: "stub_text_2 \<noteq> []"
  by (simp add: stub_text_2_def)

lemma read_method_length:
  assumes "read_method s = Some (x, r)"
  shows "length r < length s"
proof -
  from assms obtain k r0 r1 r2 where
    a: "read_identifier (skip_space s) = Some (k, r0)" and
    b: "expect stub_text_2 r0 = Some r1" and
    c: "expect stub_text_3 (snd (read_literal r1)) = Some r2" and
    d: "expect stub_text_4 (snd (read_literal r2)) = Some r"
    by (auto simp: read_method_def split: option.splits prod.splits)
  from read_identifier_length [OF a] expect_shorter [OF stub_text_2_nonempty b]
    expect_length [OF c] expect_length [OF d] read_literal_length [of r1]
    read_literal_length [of r2] skip_space_length [of s]
  show ?thesis by linarith
qed

text \<open>One or more entries, separated by commas.\<close>

function read_methods :: "string \<Rightarrow> ((string \<times> string \<times> string) list \<times> string) option" where
  "read_methods s =
     (case read_method s of
        None \<Rightarrow> None
      | Some (x, r) \<Rightarrow>
          (case expect '','' r of
             None \<Rightarrow> Some ([x], r)
           | Some r' \<Rightarrow>
               (case read_methods r' of None \<Rightarrow> None | Some (xs, r'') \<Rightarrow> Some (x # xs, r''))))"
  by pat_completeness auto
termination
proof (relation "measure length")
  show "wf (measure length)" by simp
next
  fix s x2 x y r'
  assume "read_method s = Some x2" and "(x, y) = x2" and "expect '','' y = Some r'"
  then have "length y < length s" and "length r' \<le> length y"
    using read_method_length [of s x y] expect_length [of "'',''" y r'] by auto
  then show "(r', s) \<in> measure length" by simp
qed

declare read_methods.simps [simp del]

text \<open>The inside of the object literal up to and including its closing \<open>};\<close>.\<close>

definition read_members :: "string \<Rightarrow> ((string \<times> string \<times> string) list \<times> string) option" where
  "read_members s =
     (case expect ''};'' (skip_space s) of
        Some r \<Rightarrow> Some ([], r)
      | None \<Rightarrow>
          (case read_methods s of
             None \<Rightarrow> None
           | Some (xs, r) \<Rightarrow>
               (case expect ''};'' (skip_space r) of None \<Rightarrow> None | Some r' \<Rightarrow> Some (xs, r'))))"

text \<open>One statement \<open>window.Identifier = { ... };\<close>: the name, and the entries.\<close>

definition read_object ::
  "string \<Rightarrow> ((string \<times> (string \<times> string \<times> string) list) \<times> string) option" where
  "read_object s =
     (case expect ''window.'' (skip_space s) of
        None \<Rightarrow> None
      | Some r1 \<Rightarrow>
          (case read_identifier r1 of
             None \<Rightarrow> None
           | Some (i, r2) \<Rightarrow>
               (case expect '' = {'' r2 of
                  None \<Rightarrow> None
                | Some r3 \<Rightarrow>
                    (case read_members r3 of None \<Rightarrow> None | Some (xs, r4) \<Rightarrow> Some ((i, xs), r4)))))"

lemma read_methods_length:
  assumes "read_methods s = Some (xs, r)"
  shows "length r < length s"
  using assms
proof (induction s arbitrary: xs r rule: read_methods.induct)
  case (1 s)
  from "1.prems" obtain x r1 where a: "read_method s = Some (x, r1)"
    by (subst (asm) read_methods.simps) (auto split: option.splits prod.splits)
  show ?case
  proof (cases "expect '','' r1")
    case None
    with "1.prems" a have "r = r1"
      by (subst (asm) read_methods.simps) simp
    with read_method_length [OF a] show ?thesis by simp
  next
    case (Some r')
    with "1.prems" a obtain xs' where b: "read_methods r' = Some (xs', r)"
      by (subst (asm) read_methods.simps) (auto split: option.splits prod.splits)
    have "length r < length r'"
      using "1.IH" [OF a refl Some b] .
    with read_method_length [OF a] expect_length [OF Some] show ?thesis by linarith
  qed
qed

lemma read_members_length:
  assumes "read_members s = Some (xs, r)"
  shows "length r < length s"
proof (cases "expect ''};'' (skip_space s)")
  case (Some r')
  with assms have "r = r'" by (simp add: read_members_def)
  with expect_shorter [OF _ Some] skip_space_length [of s] show ?thesis by simp
next
  case None
  with assms obtain xs' r1 where a: "read_methods s = Some (xs', r1)"
    and b: "expect ''};'' (skip_space r1) = Some r"
    by (auto simp: read_members_def split: option.splits prod.splits)
  from read_methods_length [OF a] expect_length [OF b] skip_space_length [of r1]
  show ?thesis by linarith
qed

lemma read_object_length:
  assumes "read_object s = Some (x, r)"
  shows "length r < length s"
proof -
  from assms obtain r1 i r2 r3 xs where
    a: "expect ''window.'' (skip_space s) = Some r1" and
    b: "read_identifier r1 = Some (i, r2)" and
    c: "expect '' = {'' r2 = Some r3" and
    d: "read_members r3 = Some (xs, r)"
    by (auto simp: read_object_def split: option.splits prod.splits)
  from expect_length [OF a] read_identifier_length [OF b] expect_length [OF c]
    read_members_length [OF d] skip_space_length [of s]
  show ?thesis by linarith
qed

text \<open>The statements up to the fixed closing text of the script.\<close>

function read_objects :: "string \<Rightarrow> (string \<times> (string \<times> string \<times> string) list) list option" where
  "read_objects s =
     (case read_object s of
        None \<Rightarrow> None
      | Some (x, r) \<Rightarrow>
          if r = script_text_2 then Some [x]
          else (case read_objects r of None \<Rightarrow> None | Some xs \<Rightarrow> Some (x # xs)))"
  by pat_completeness auto
termination
proof (relation "measure length")
  show "wf (measure length)" by simp
next
  fix s x2 x y
  assume "read_object s = Some x2" and "(x, y) = x2"
  then show "(y, s) \<in> measure length"
    using read_object_length [of s x y] by auto
qed

declare read_objects.simps [simp del]

text \<open>The whole script: empty, or the fixed opening text followed by the statements.\<close>

definition read_script :: "string \<Rightarrow> (string \<times> (string \<times> string \<times> string) list) list option" where
  "read_script s =
     (if s = [] then Some []
      else case expect script_text_1 s of None \<Rightarrow> None | Some r \<Rightarrow> read_objects r)"

text \<open>
  A function value of the page: the stub whose body names interface \<open>i\<close> and
  method \<open>n\<close>; calling it is \<open>stub i n\<close>.  An object is the list of its own
  properties.
\<close>

datatype function_value = StubFunction string string

fun call_function :: "function_value \<Rightarrow> int \<Rightarrow> string \<Rightarrow> jsval list \<Rightarrow> window \<Rightarrow> nat \<times> window" where
  "call_function (StubFunction i n) = stub i n"

type_synonym js_object = "(string, function_value) jsmap"

text \<open>
  Evaluating the object literal, entry by entry: an entry defines an own property,
  except that the key \<open>__proto__\<close> sets the prototype of the new object and defines
  no property.
\<close>

fun object_literal :: "(string \<times> string \<times> string) list \<Rightarrow> js_object \<Rightarrow> js_object" where
  "object_literal [] obj = obj"
| "object_literal (x # xs) obj =
     object_literal xs
       (if fst x = ''__proto__'' then obj
        else map_set (fst x) (StubFunction (fst (snd x)) (snd (snd x))) obj)"

text \<open>
  Running the statements on the page's globals.  \<open>reserved\<close> lists the property
  names of the page's \<open>window\<close> object that an assignment does not turn into a
  property holding the assigned value (in a browser \<open>location\<close>, \<open>document\<close>, \<open>top\<close>
  and others); \<open>__proto__\<close> is such a name in every page.  What an assignment to
  one of them does instead is outside the model.
\<close>

fun run_statements ::
  "string list \<Rightarrow> (string \<times> (string \<times> string \<times> string) list) list
     \<Rightarrow> (string, js_object) jsmap \<Rightarrow> (string, js_object) jsmap option" where
  "run_statements reserved [] g = Some g"
| "run_statements reserved (x # xs) g =
     (if fst x = ''__proto__'' \<or> fst x \<in> set reserved then None
      else run_statements reserved xs (map_set (fst x) (object_literal (snd x) []) g))"

definition execute_script ::
  "string list \<Rightarrow> string \<Rightarrow> (string, js_object) jsmap \<Rightarrow> (string, js_object) jsmap option" where
  "execute_script reserved text g =
     (case read_script text of None \<Rightarrow> None | Some xs \<Rightarrow> run_statements reserved xs g)"

text \<open>Assigning objects to globals, one after the other.\<close>

definition assign_all :: "(string \<times> js_object) list \<Rightarrow> (string, js_object) jsmap \<Rightarrow> (string, js_object) jsmap" where
  "assign_all objs g = foldl (\<lambda>g x. map_set (fst x) (snd x) g) g objs"

text \<open>
  What the claim expects of the page after the script: under every interface name
  an object whose own properties are the method names, each the stub of that
  interface and method.
\<close>

definition stubs_of :: "string \<Rightarrow> string list \<Rightarrow> js_object" where
  "stubs_of i ns = map (\<lambda>n. (n, StubFunction i n)) ns"

definition registry_objects :: "manager \<Rightarrow> (string \<times> js_object) list" where
  "registry_objects m = map (\<lambda>kv. (fst kv, stubs_of (fst kv) (map_keys (snd kv)))) (interfaces m)"

text \<open>The text of the statements for interface names with their method names.\<close>

definition shape_text :: "(string \<times> string list) list \<Rightarrow> string" where
  "shape_text xs = join nl (map (\<lambda>x. interfaceDefinition (fst x) (snd x)) xs)"

definition entries_of :: "string \<Rightarrow> string list \<Rightarrow> (string \<times> string \<times> string) list" where
  "entries_of i ns = map (\<lambda>n. (n, i, n)) ns"

text \<open>
  A name the generator can splice into the text as it is: an identifier other than
  \<open>__proto__\<close>; and a registry all of whose names are such, with no interface name
  reserved by the page.
\<close>

definition plain_name :: "string \<Rightarrow> bool" where
  "plain_name n = (is_identifier n \<and> n \<noteq> ''__proto__'')"

definition plain_registry :: "string list \<Rightarrow> manager \<Rightarrow> bool" where
  "plain_registry reserved m =
     list_all (\<lambda>kv. plain_name (fst kv) \<and> fst kv \<notin> set reserved
                     \<and> list_all plain_name (map_keys (snd kv))) (interfaces m)"

section \<open>A running example\<close>

text \<open>
  The configuration of the spec's example: one interface \<open>Android\<close> with one method
  \<open>getToken\<close> that returns \<open>"abc"\<close>; and a second method that throws.
\<close>

definition getToken :: handler where
  "getToken xs = Returns (JStr ''abc'')"

definition failing :: handler where
  "failing xs = Throws (JStr ''boom'')"

definition example_config :: JavaScriptInterfaceConfig where
  "example_config =
     \<lparr>interfaces_cfg =
        [\<lparr>iname = ''Android'',
          methods = [\<lparr>name = ''getToken'', handler = getToken\<rparr>, \<lparr>name = ''fail'', handler = failing\<rparr>]\<rparr>],
      enableDebugLogging_cfg = None\<rparr>"

definition example_manager :: manager where
  "example_manager = configure example_config new_manager"

definition example_call :: "string \<Rightarrow> string \<Rightarrow> JavaScriptInterfaceCall" where
  "example_call i n = \<lparr>interfaceName = JStr i, methodName = JStr n, args = JArr [], callId = JStr ''call_1_a''\<rparr>"



text \<open>An engine, by the wording of its messages.\<close>

fun example_engine :: engine where
  "example_engine CannotConvert = ''Cannot convert object to primitive value''"
| "example_engine NotIterable = ''args is not iterable''"
| "example_engine ResolveNotAFunction = ''callback.resolve is not a function''"
| "example_engine RejectNotAFunction = ''callback.reject is not a function''"

text \<open>
  A second configuration, with debug logging on as in the repository's example
  application: a method that throws a value of its own making, and one that throws
  an \<open>Error\<close> whose message it has set to a number.  And a call envelope as a page
  can send it, whose method name is an object with a \<open>toString\<close> property.
\<close>

definition throwing :: handler where
  "throwing xs = Throws (JObj [(''toString'', JNum ''1'')])"

definition numbered :: handler where
  "numbered xs = Throws (JError ''Error'' (JNum ''42''))"

definition logging_config :: JavaScriptInterfaceConfig where
  "logging_config =
     \<lparr>interfaces_cfg =
        [\<lparr>iname = ''Android'',
          methods = [\<lparr>name = ''getToken'', handler = getToken\<rparr>,
                     \<lparr>name = ''throwing'', handler = throwing\<rparr>,
                     \<lparr>name = ''numbered'', handler = numbered\<rparr>]\<rparr>],
      enableDebugLogging_cfg = Some True\<rparr>"

definition logging_manager :: manager where
  "logging_manager = configure logging_config new_manager"

definition odd_call :: JavaScriptInterfaceCall where
  "odd_call = \<lparr>interfaceName = JStr ''Android'', methodName = JObj [(''toString'', JNum ''1'')],
               args = JArr [], callId = JStr ''call_1_a''\<rparr>"

text \<open>
  A platform whose \<open>JSON.parse\<close> knows three texts, and a component with the
  logging manager and an \<open>onMessage\<close> handler that returns.
\<close>

definition example_parse :: "string \<Rightarrow> jsval option" where
  "example_parse s =
     (if s = ''call'' then
        Some (JObj [(''type'', JStr ''JS_INTERFACE_CALL''), (''interfaceName'', JStr ''Android''),
                    (''methodName'', JObj [(''toString'', JNum ''1'')]), (''args'', JArr []),
                    (''callId'', JStr ''call_1_a'')])
      else if s = ''null'' then Some JNull
      else if s = ''42'' then Some (JNum ''42'')
      else None)"

definition example_platform :: platform where
  "example_platform =
     \<lparr>messages = example_engine, parse = example_parse,
      stringify = (\<lambda>r. map_option (\<lambda>s. ''callId:'' @ s) (js_String (rcallId r))),
      injectJavaScript = (\<lambda>s. None)\<rparr>"

definition example_component :: component where
  "example_component =
     \<lparr>jsInterfaceManager = Some logging_manager, webViewRef = True, onMessageProp = Some (\<lambda>d. None)\<rparr>"

text \<open>
  Three configurations with names that the generator does not expect: an interface
  name with a hyphen, a method named \<open>__proto__\<close>, an interface named \<open>__proto__\<close>.
\<close>

definition hyphen_config :: JavaScriptInterfaceConfig where
  "hyphen_config = \<lparr>interfaces_cfg = [\<lparr>iname = ''my-api'', methods = []\<rparr>], enableDebugLogging_cfg = None\<rparr>"

definition proto_method_config :: JavaScriptInterfaceConfig where
  "proto_method_config =
     \<lparr>interfaces_cfg = [\<lparr>iname = ''Api'', methods = [\<lparr>name = ''__proto__'', handler = getToken\<rparr>]\<rparr>],
      enableDebugLogging_cfg = None\<rparr>"

definition proto_interface_config :: JavaScriptInterfaceConfig where
  "proto_interface_config =
     \<lparr>interfaces_cfg = [\<lparr>iname = ''__proto__'', methods = []\<rparr>], enableDebugLogging_cfg = None\<rparr>"

section \<open>Properties of the registry\<close>

lemma map_of_map_set: "map_of (map_set k v m) = (map_of m)(k \<mapsto> v)"
  by (induction m) (auto simp: fun_eq_iff)

lemma keys_map_set: "fst ` set (map_set k v m) = insert k (fst ` set m)"
proof (induction m)
  case Nil
  then show ?case by simp
next
  case (Cons a m)
  obtain k' v' where a: "a = (k', v')" by (cases a)
  from Cons a show ?case by (cases "k' = k") auto
qed

lemma distinct_map_set: "distinct (map fst m) \<Longrightarrow> distinct (map fst (map_set k v m))"
proof (induction m)
  case Nil
  then show ?case by simp
next
  case (Cons a m)
  obtain k' v' where a: "a = (k', v')" by (cases a)
  show ?case
  proof (cases "k' = k")
    case True
    with Cons.prems a show ?thesis by simp
  next
    case False
    have "k' \<notin> fst ` set (map_set k v m)"
      using Cons.prems a False by (simp add: keys_map_set)
    with Cons a False show ?thesis by simp
  qed
qed

lemma find_app:
  "find P (xs @ ys) = (case find P xs of None \<Rightarrow> find P ys | Some x \<Rightarrow> Some x)"
  by (induction xs) auto

lemma map_of_add_methods:
  "map_of (add_methods ms mm) n =
     (case find (\<lambda>y. name y = n) (rev ms) of None \<Rightarrow> map_of mm n | Some y \<Rightarrow> Some (handler y))"
  by (induction ms arbitrary: mm) (auto simp: find_app map_of_map_set split: option.splits)

lemma distinct_add_methods: "distinct (map fst mm) \<Longrightarrow> distinct (map fst (add_methods ms mm))"
  by (induction ms arbitrary: mm) (auto simp: distinct_map_set)

lemma map_of_add_interfaces:
  "map_of (add_interfaces xs im) i =
     (case find (\<lambda>x. iname x = i) (rev xs) of None \<Rightarrow> map_of im i
      | Some x \<Rightarrow> Some (add_methods (methods x) []))"
  by (induction xs arbitrary: im) (auto simp: find_app map_of_map_set split: option.splits)

lemma distinct_add_interfaces: "distinct (map fst im) \<Longrightarrow> distinct (map fst (add_interfaces xs im))"
  by (induction xs arbitrary: im) (auto simp: distinct_map_set)

lemma keys_add_interfaces: "fst ` set (add_interfaces xs im) = fst ` set im \<union> iname ` set xs"
  by (induction xs arbitrary: im) (auto simp: keys_map_set)

lemma example_interfaces:
  "interfaces example_manager = [(''Android'', [(''getToken'', getToken), (''fail'', failing)])]"
  by (simp add: example_manager_def example_config_def configure_def)

text \<open>
  Claim C5.  \<open>configure\<close> does not depend on the registry it replaces.  Afterwards the
  interface names are those of the configuration, each once; an interface name leads
  to the methods of the last capability object listed under it, and a method name
  to the handler of the last method listed under it in that object; \<open>hasInterface\<close>
  and \<open>hasMethod\<close> answer accordingly; and no interface holds a method name twice.
\<close>

theorem configure_replaces_registry:
  "configure config m = configure config m'
   \<and> set (getInterfaceNames (configure config m)) = iname ` set (interfaces_cfg config)
   \<and> distinct (getInterfaceNames (configure config m))
   \<and> distinct (methodNamesOf (configure config m) i)
   \<and> (case map_get (interfaces (configure config m)) i of None \<Rightarrow> None | Some mm \<Rightarrow> map_get mm n)
       = (case spec_interface config i of None \<Rightarrow> None | Some x \<Rightarrow> spec_handler x n)
   \<and> hasInterface (configure config m) i = (spec_interface config i \<noteq> None)
   \<and> hasMethod (configure config m) i n
       = (case spec_interface config i of None \<Rightarrow> False | Some x \<Rightarrow> spec_handler x n \<noteq> None)"
proof -
  have a: "configure config m = configure config m'"
    by (simp add: configure_def)
  have b: "set (getInterfaceNames (configure config m)) = iname ` set (interfaces_cfg config)"
    using keys_add_interfaces [of "interfaces_cfg config" "[]"]
    by (simp add: getInterfaceNames_def map_keys_def configure_def)
  have c: "distinct (getInterfaceNames (configure config m))"
    by (simp add: getInterfaceNames_def map_keys_def configure_def distinct_add_interfaces)
  have d: "distinct (methodNamesOf (configure config m) i)"
    by (auto simp: methodNamesOf_def configure_def map_get_def map_keys_def map_of_add_interfaces
        distinct_add_methods split: option.splits)
  have e: "(case map_get (interfaces (configure config m)) i of None \<Rightarrow> None | Some mm \<Rightarrow> map_get mm n)
       = (case spec_interface config i of None \<Rightarrow> None | Some x \<Rightarrow> spec_handler x n)"
    by (auto simp: configure_def map_get_def spec_interface_def spec_handler_def
        map_of_add_interfaces map_of_add_methods split: option.splits)
  have f: "hasInterface (configure config m) i = (spec_interface config i \<noteq> None)"
    by (auto simp: configure_def map_has_def hasInterface_def spec_interface_def
        map_of_add_interfaces split: option.splits)
  have g: "hasMethod (configure config m) i n
       = (case spec_interface config i of None \<Rightarrow> False | Some x \<Rightarrow> spec_handler x n \<noteq> None)"
    by (auto simp: configure_def map_get_def map_has_def hasMethod_def spec_interface_def
        spec_handler_def map_of_add_interfaces map_of_add_methods split: option.splits)
  from a b c d e f g show ?thesis by blast
qed


section \<open>Properties of the dispatcher\<close>

lemma logging_interfaces:
  "interfaces logging_manager
     = [(''Android'', [(''getToken'', getToken), (''throwing'', throwing), (''numbered'', numbered)])]"
  by (simp add: logging_manager_def logging_config_def configure_def)

lemma logging_enabled: "enableDebugLogging logging_manager"
  by (simp add: logging_manager_def logging_config_def configure_def)

lemma log_line_strings:
  assumes "interfaceName call = JStr i" and "methodName call = JStr n"
  shows "log_line eng m call e = Inr (if enableDebugLogging m then [e] else [])"
  using assms by (simp add: log_line_def names_text_def)

lemma invocations_append: "invocations (xs @ ys) = invocations xs @ invocations ys"
  by (induction xs rule: invocations.induct) simp_all

text \<open>
  Claim C1.  When the envelope names a registered interface and a method registered
  on it, and the handler, called with the envelope's arguments, returns a value or a
  promise that fulfils with one, then \<open>handleCall\<close> calls that handler exactly once,
  with the argument list in order, and returns the success response whose result is
  that value.
\<close>

theorem handleCall_success:
  assumes "map_get (interfaces m) i = Some mm" and "map_get mm n = Some h"
    and "await (h xs) = Fulfilled v"
  shows "snd (handleCall eng m \<lparr>interfaceName = JStr i, methodName = JStr n, args = JArr xs, callId = c\<rparr>)
           = Fulfilled \<lparr>rtype = ''JS_INTERFACE_RESPONSE'', rcallId = c, success = True,
                        result = Some v, error = None\<rparr>
       \<and> invocations (fst (handleCall eng m \<lparr>interfaceName = JStr i, methodName = JStr n, args = JArr xs, callId = c\<rparr>))
           = [(i, n, xs)]"
  using assms
  by (simp add: handleCall_def try_block_def log_line_strings invocations_append)

theorem handleCall_success_witness:
  "map_get (interfaces example_manager) ''Android'' = Some [(''getToken'', getToken), (''fail'', failing)]
   \<and> map_get [(''getToken'', getToken), (''fail'', failing)] ''getToken'' = Some getToken
   \<and> await (getToken []) = Fulfilled (JStr ''abc'')
   \<and> snd (handleCall example_engine example_manager (example_call ''Android'' ''getToken''))
       = Fulfilled \<lparr>rtype = ''JS_INTERFACE_RESPONSE'', rcallId = JStr ''call_1_a'', success = True,
                    result = Some (JStr ''abc''), error = None\<rparr>
   \<and> invocations (fst (handleCall example_engine example_manager (example_call ''Android'' ''getToken'')))
       = [(''Android'', ''getToken'', [])]"
proof -
  have h1: "map_get (interfaces example_manager) ''Android'' = Some [(''getToken'', getToken), (''fail'', failing)]"
    by (simp add: example_interfaces map_get_def)
  have h2: "map_get [(''getToken'', getToken), (''fail'', failing)] ''getToken'' = Some getToken"
    by (simp add: map_get_def)
  have h3: "await (getToken []) = Fulfilled (JStr ''abc'')"
    by (simp add: getToken_def)
  show ?thesis
    using h1 h2 h3
      handleCall_success [OF h1 h2 h3, where c = "JStr ''call_1_a''" and eng = example_engine]
    by (simp add: example_call_def)
qed



text \<open>
  Claim C3.  When the interface is in the registry and the method name is not
  registered on it, \<open>handleCall\<close> returns the failure response with the message
  \<open>Method '<name>' not found on interface '<name>'\<close> and calls no handler.
\<close>

theorem handleCall_unknown_method:
  assumes "interfaceName call = JStr i" and "map_get (interfaces m) i = Some mm"
    and "methodName call = JStr n" and "map_get mm n = None"
  shows "snd (handleCall eng m call)
           = Fulfilled \<lparr>rtype = ''JS_INTERFACE_RESPONSE'', rcallId = callId call, success = False,
                        result = None,
                        error = Some (JStr (''Method '' @ sq @ n @ sq @ '' not found on interface '' @ sq @ i @ sq))\<rparr>
       \<and> invocations (fst (handleCall eng m call)) = []"
  using assms
  by (simp add: handleCall_def try_block_def catch_block_def log_line_strings invocations_append
      method_not_found_def thrown_Error_def new_Error_def)

theorem handleCall_unknown_method_witness:
  "interfaceName (example_call ''Android'' ''missing'') = JStr ''Android''
   \<and> map_get (interfaces example_manager) ''Android'' = Some [(''getToken'', getToken), (''fail'', failing)]
   \<and> methodName (example_call ''Android'' ''missing'') = JStr ''missing''
   \<and> map_get [(''getToken'', getToken), (''fail'', failing)] ''missing'' = None
   \<and> snd (handleCall example_engine example_manager (example_call ''Android'' ''missing''))
       = Fulfilled \<lparr>rtype = ''JS_INTERFACE_RESPONSE'', rcallId = JStr ''call_1_a'', success = False,
                    result = None,
                    error = Some (JStr (''Method '' @ sq @ ''missing'' @ sq @ '' not found on interface '' @ sq @ ''Android'' @ sq))\<rparr>
   \<and> invocations (fst (handleCall example_engine example_manager (example_call ''Android'' ''missing''))) = []"
proof -
  have h1: "interfaceName (example_call ''Android'' ''missing'') = JStr ''Android''"
    by (simp add: example_call_def)
  have h2: "map_get (interfaces example_manager) ''Android'' = Some [(''getToken'', getToken), (''fail'', failing)]"
    by (simp add: example_interfaces map_get_def)
  have h3: "methodName (example_call ''Android'' ''missing'') = JStr ''missing''"
    by (simp add: example_call_def)
  have h4: "map_get [(''getToken'', getToken), (''fail'', failing)] ''missing'' = None"
    by (simp add: map_get_def)
  show ?thesis
    using h1 h2 h3 h4 handleCall_unknown_method [OF h1 h2 h3 h4, of example_engine]
    by (simp add: example_call_def)
qed

text \<open>
  Claim C4, at three inputs where the code does not do what the claim says.  A
  handler that throws an object with a \<open>toString\<close> property: \<open>String(error)\<close> in the
  \<open>catch\<close> block throws, and \<open>handleCall\<close> rejects.  An envelope whose method name
  is such an object, with debug logging on: the log statement before the \<open>try\<close>
  throws, and \<open>handleCall\<close> rejects.  A handler that throws an \<open>Error\<close> whose message
  is the number 42: the error field of the response is that number, not a string.
\<close>

theorem handleCall_rejects:
  "snd (handleCall example_engine logging_manager (example_call ''Android'' ''throwing''))
     = Rejected (JError ''TypeError'' (JStr ''Cannot convert object to primitive value''))
   \<and> invocations (fst (handleCall example_engine logging_manager (example_call ''Android'' ''throwing'')))
       = [(''Android'', ''throwing'', [])]
   \<and> handleCall example_engine logging_manager odd_call
       = ([], Rejected (JError ''TypeError'' (JStr ''Cannot convert object to primitive value'')))
   \<and> snd (handleCall example_engine logging_manager (example_call ''Android'' ''numbered''))
       = Fulfilled \<lparr>rtype = ''JS_INTERFACE_RESPONSE'', rcallId = JStr ''call_1_a'', success = False,
                    result = None, error = Some (JNum ''42'')\<rparr>"
  by (simp add: handleCall_def try_block_def catch_block_def log_line_def names_text_def
      logging_interfaces logging_enabled example_call_def odd_call_def map_get_def
      throwing_def numbered_def type_error_def invocations_append)

text \<open>
  Claim C10.  Every response that \<open>handleCall\<close> returns has type
  \<open>JS_INTERFACE_RESPONSE\<close> and the callId of the envelope; a success response has a
  result field and no error field, a failure response an error field and no result
  field.
\<close>

theorem handleCall_response_shape:
  assumes "snd (handleCall eng m call) = Fulfilled r"
  shows "rtype r = ''JS_INTERFACE_RESPONSE'' \<and> rcallId r = callId call
       \<and> (if success r then result r \<noteq> None \<and> error r = None
           else error r \<noteq> None \<and> result r = None)"
  using assms
  by (auto simp: handleCall_def catch_block_def
      split: prod.splits promise.splits sum.splits option.splits)

theorem handleCall_response_shape_witness:
  "snd (handleCall example_engine example_manager (example_call ''Android'' ''getToken''))
     = Fulfilled \<lparr>rtype = ''JS_INTERFACE_RESPONSE'', rcallId = JStr ''call_1_a'', success = True,
                  result = Some (JStr ''abc''), error = None\<rparr>
   \<and> rtype \<lparr>rtype = ''JS_INTERFACE_RESPONSE'', rcallId = JStr ''call_1_a'', success = True,
             result = Some (JStr ''abc''), error = None\<rparr> = ''JS_INTERFACE_RESPONSE''
   \<and> rcallId \<lparr>rtype = ''JS_INTERFACE_RESPONSE'', rcallId = JStr ''call_1_a'', success = True,
             result = Some (JStr ''abc''), error = None\<rparr> = callId (example_call ''Android'' ''getToken'')"
proof -
  have h: "snd (handleCall example_engine example_manager (example_call ''Android'' ''getToken''))
     = Fulfilled \<lparr>rtype = ''JS_INTERFACE_RESPONSE'', rcallId = JStr ''call_1_a'', success = True,
                  result = Some (JStr ''abc''), error = None\<rparr>"
    by (simp add: handleCall_def try_block_def log_line_def names_text_def example_interfaces
        example_call_def map_get_def getToken_def)
  show ?thesis
    using h handleCall_response_shape [OF h] by simp
qed

section \<open>Properties of the message handler\<close>

text \<open>
  A message that does not parse, or whose parsed value does not have
  \<open>type = 'JS_INTERFACE_CALL'\<close>, is not handed to the dispatcher: it goes to the
  embedder's handler as it came, when there is one.
\<close>

lemma message_to_generic:
  assumes "parse P data = None
           \<or> (\<exists>d. parse P data = Some d \<and> get_prop d ''type'' \<noteq> Some (JStr ''JS_INTERFACE_CALL''))"
  shows "message_try P c data = Inr []"
  using assms
  by (auto simp: message_try_def split: option.splits)

lemma example_as_call:
  "as_call (JObj [(''type'', JStr ''JS_INTERFACE_CALL''), (''interfaceName'', JStr ''Android''),
                  (''methodName'', JObj [(''toString'', JNum ''1'')]), (''args'', JArr []),
                  (''callId'', JStr ''call_1_a'')]) = odd_call"
  by (simp add: as_call_def field_def odd_call_def)

lemma odd_call_rejected:
  "handleCall example_engine logging_manager odd_call
     = ([], Rejected (type_error example_engine CannotConvert))"
  by (simp add: handleCall_def log_line_def names_text_def logging_enabled odd_call_def)

text \<open>
  Claim C7, at a message where the code does not do what the claim says.  With
  debug logging on, the page posts a call envelope whose method name is an object
  with a \<open>toString\<close> property.  The message has the call-envelope type and is
  handed to the dispatcher; \<open>handleCall\<close> rejects; the rejection is caught by the
  empty \<open>catch\<close>, and the same message is then handed to the embedder's handler
  as well.  No response is sent to the page.
\<close>

theorem enhancedOnMessage_delivers_call:
  "enhancedOnMessage example_platform example_component ''call''
     = ([Dispatch odd_call [], OnMessage ''call''], Completed)"
  by (simp add: enhancedOnMessage_def message_try_def example_platform_def example_component_def
      example_parse_def example_as_call odd_call_rejected)

section \<open>Properties of the injected script at run time\<close>

lemma stub_without_transport:
  "stub iface meth now rnd arguments (w\<lparr>transport := False\<rparr>)
     = (promises w,
        w\<lparr>transport := False, promises := Suc (promises w),
          jsInterfaceCallbacks := map_set (make_callId now rnd) (promises w) (jsInterfaceCallbacks w),
          settled := settled w @ [(promises w, Reject (new_Error ''ReactNativeWebView not available''))]\<rparr>)"
  by (simp add: stub_def Let_def)

lemma stub_with_transport:
  "stub iface meth now rnd arguments (w\<lparr>transport := True\<rparr>)
     = (promises w,
        w\<lparr>transport := True, promises := Suc (promises w),
          jsInterfaceCallbacks := map_set (make_callId now rnd) (promises w) (jsInterfaceCallbacks w),
          posted := posted w @ [\<lparr>interfaceName = JStr iface, methodName = JStr meth,
                                 args = JArr (json_elements arguments),
                                 callId = JStr (make_callId now rnd)\<rparr>]\<rparr>)"
  by (simp add: stub_def Let_def)

lemma object_get_map_set: "object_get (map_set k v tbl) k = Own v"
  by (simp add: object_get_def map_of_map_set)

text \<open>
  Claim C8, at the call \<open>Android.getToken()\<close> made at time 17 with random suffix
  \<open>k3j9x0a1b\<close> in a page without \<open>window.ReactNativeWebView\<close> and with an empty
  pending-call table: the promise returned is rejected with the error
  \<open>ReactNativeWebView not available\<close> and nothing is posted, but the table entry
  stored for the call is still there afterwards.
\<close>

theorem stub_without_transport_leaves_entry:
  "stub ''Android'' ''getToken'' 17 ''k3j9x0a1b'' []
     \<lparr>jsInterfaceCallbacks = [], transport = False, posted = [], settled = [], promises = 0\<rparr>
   = (0, \<lparr>jsInterfaceCallbacks = [(''call_17_k3j9x0a1b'', 0)], transport = False, posted = [],
          settled = [(0, Reject (JError ''Error'' (JStr ''ReactNativeWebView not available'')))],
          promises = 1\<rparr>)"
  by (simp add: stub_def Let_def make_callId_def int_digits_def digit_char_def new_Error_def)









section \<open>Properties of the generated script\<close>

lemma expect_prefix: "expect l (l @ r) = Some r"
  by (induction l) simp_all

lemma part_not_special:
  assumes "is_identifier_part c"
  shows "c \<noteq> CHR 0x27" "c \<noteq> CHR 0x5C" "c \<noteq> CHR 0x0A" "c \<noteq> CHR '' ''" "c \<noteq> CHR ''}''"
    "c \<noteq> CHR '':''" "c \<noteq> CHR '',''"
  using assms by (auto simp: is_identifier_part_def)

lemma part_literal: "is_identifier_part c \<Longrightarrow> literal_char c"
  by (auto simp: literal_char_def dest: part_not_special)

lemma skip_space_spaces: "list_all is_space ws \<Longrightarrow> skip_space (ws @ s) = skip_space s"
  by (induction ws) (simp_all add: skip_space_def)

lemma skip_space_identifier: "is_identifier n \<Longrightarrow> skip_space (n @ s) = n @ s"
  by (cases n) (auto simp: is_identifier_def skip_space_def is_space_def dest: part_not_special)

lemma read_identifier_exact:
  assumes "is_identifier n" and "\<not> is_identifier_part c"
  shows "read_identifier (n @ c # r) = Some (n, c # r)"
proof -
  have all: "\<And>x. x \<in> set n \<Longrightarrow> is_identifier_part x"
    using assms(1) by (simp add: is_identifier_def list_all_iff)
  have "takeWhile is_identifier_part (n @ c # r) = n"
    using all assms(2) by (simp add: takeWhile_append2)
  moreover have "dropWhile is_identifier_part (n @ c # r) = c # r"
    using all assms(2) by (simp add: dropWhile_append2)
  ultimately show ?thesis
    using assms(1) by (simp add: read_identifier_def)
qed

lemma read_literal_exact:
  assumes "is_identifier n"
  shows "read_literal (n @ CHR 0x27 # r) = (n, CHR 0x27 # r)"
proof -
  have all: "\<And>x. x \<in> set n \<Longrightarrow> literal_char x"
    using assms by (auto simp: is_identifier_def list_all_iff dest: part_literal)
  have "takeWhile literal_char (n @ CHR 0x27 # r) = n"
    using all by (simp add: takeWhile_append2 literal_char_def)
  moreover have "dropWhile literal_char (n @ CHR 0x27 # r) = CHR 0x27 # r"
    using all by (simp add: dropWhile_append2 literal_char_def)
  ultimately show ?thesis by (simp add: read_literal_def)
qed

lemma stub_text_3_quote: "stub_text_3 = CHR 0x27 # tl stub_text_3"
  by (simp add: stub_text_3_def sq_def)

lemma stub_text_4_quote: "stub_text_4 = CHR 0x27 # tl stub_text_4"
  by (simp add: stub_text_4_def sq_def)

lemma read_method_exact:
  assumes "is_identifier i" and "is_identifier n"
  shows "read_method (methodDefinition i n @ r) = Some ((n, i, n), r)"
proof -
  have a: "skip_space (methodDefinition i n @ r)
             = n @ stub_text_2 @ i @ stub_text_3 @ n @ stub_text_4 @ r"
    using skip_space_spaces [of stub_text_1 "n @ stub_text_2 @ i @ stub_text_3 @ n @ stub_text_4 @ r"]
      skip_space_identifier [OF assms(2)]
    by (simp add: methodDefinition_def stub_text_1_def nl_def is_space_def)
  obtain c cs where c: "stub_text_2 = c # cs" and nc: "\<not> is_identifier_part c"
    by (simp add: stub_text_2_def is_identifier_part_def)
  have b: "read_identifier (n @ stub_text_2 @ i @ stub_text_3 @ n @ stub_text_4 @ r)
             = Some (n, stub_text_2 @ i @ stub_text_3 @ n @ stub_text_4 @ r)"
    unfolding c
    using read_identifier_exact [OF assms(2) nc, of "cs @ i @ stub_text_3 @ n @ stub_text_4 @ r"]
    by simp
  have l1: "read_literal (i @ stub_text_3 @ n @ stub_text_4 @ r) = (i, stub_text_3 @ n @ stub_text_4 @ r)"
    using read_literal_exact [OF assms(1), of "tl stub_text_3 @ n @ stub_text_4 @ r"] stub_text_3_quote
    by (metis append_Cons)
  have l2: "read_literal (n @ stub_text_4 @ r) = (n, stub_text_4 @ r)"
    using read_literal_exact [OF assms(2), of "tl stub_text_4 @ r"] stub_text_4_quote
    by (metis append_Cons)
  show ?thesis
    by (simp add: read_method_def a b expect_prefix l1 l2)
qed

lemma read_methods_exact:
  assumes "is_identifier i" and "list_all is_identifier ns" and "ns \<noteq> []"
    and "expect '','' r = None"
  shows "read_methods (join '','' (map (methodDefinition i) ns) @ r) = Some (entries_of i ns, r)"
  using assms(2,3)
proof (induction ns)
  case Nil
  then show ?case by simp
next
  case (Cons n ns)
  then have n: "is_identifier n" by simp
  show ?case
  proof (cases ns)
    case Nil
    then show ?thesis
      using read_method_exact [OF assms(1) n, of r] assms(4)
      by (subst read_methods.simps) (simp add: entries_of_def)
  next
    case (Cons n' ns')
    have ih: "read_methods (join '','' (map (methodDefinition i) ns) @ r) = Some (entries_of i ns, r)"
      using Cons.IH Cons.prems Cons by simp
    have "join '','' (map (methodDefinition i) (n # ns)) @ r
            = methodDefinition i n @ ('','' @ join '','' (map (methodDefinition i) ns) @ r)"
      using Cons by simp
    then show ?thesis
      using read_method_exact [OF assms(1) n, of "'','' @ join '','' (map (methodDefinition i) ns) @ r"] ih
      by (subst read_methods.simps) (simp add: entries_of_def)
  qed
qed

lemma read_members_exact:
  assumes "is_identifier i" and "list_all is_identifier ns"
  shows "read_members (join '','' (map (methodDefinition i) ns) @ object_text_3 @ r)
           = Some (entries_of i ns, r)"
proof -
  have close: "expect ''};'' (skip_space (object_text_3 @ r)) = Some r"
    by (simp add: object_text_3_def nl_def skip_space_def is_space_def)
  show ?thesis
  proof (cases ns)
    case Nil
    then show ?thesis using close by (simp add: read_members_def entries_of_def)
  next
    case (Cons n ns')
    then have n: "is_identifier n" using assms(2) by simp
    obtain c cs where c: "n = c # cs" and "is_identifier_part c"
      using n by (cases n) (auto simp: is_identifier_def)
    then have "c \<noteq> CHR ''}''" by (auto dest: part_not_special)
    obtain t where t: "join '','' (map (methodDefinition i) ns) @ object_text_3 @ r
                         = stub_text_1 @ n @ t"
      using Cons by (cases ns') (auto simp: methodDefinition_def)
    have "skip_space (stub_text_1 @ n @ t) = n @ t"
      using skip_space_spaces [of stub_text_1 "n @ t"] skip_space_identifier [OF n]
      by (simp add: stub_text_1_def nl_def is_space_def)
    then have open_: "expect ''};'' (skip_space (join '','' (map (methodDefinition i) ns) @ object_text_3 @ r)) = None"
      using t c \<open>c \<noteq> CHR ''}''\<close> by simp
    have "expect '','' (object_text_3 @ r) = None"
      by (simp add: object_text_3_def nl_def)
    from read_methods_exact [OF assms(1) assms(2) _ this] Cons
    have "read_methods (join '','' (map (methodDefinition i) ns) @ object_text_3 @ r)
            = Some (entries_of i ns, object_text_3 @ r)"
      by simp
    then show ?thesis
      using open_ close by (simp add: read_members_def)
  qed
qed

lemma read_object_exact:
  assumes "is_identifier i" and "list_all is_identifier ns"
  shows "read_object (interfaceDefinition i ns @ r) = Some ((i, entries_of i ns), r)"
proof -
  let ?rest = "join '','' (map (methodDefinition i) ns) @ object_text_3 @ r"
  have a: "expect ''window.'' (skip_space (interfaceDefinition i ns @ r))
             = Some (i @ object_text_2 @ ?rest)"
    by (simp add: interfaceDefinition_def object_text_1_def nl_def skip_space_def is_space_def)
  have b: "read_identifier (i @ object_text_2 @ ?rest) = Some (i, object_text_2 @ ?rest)"
    using read_identifier_exact [OF assms(1), of "CHR '' ''" "''= {'' @ ?rest"]
    by (simp add: object_text_2_def is_identifier_part_def)
  have c: "expect '' = {'' (object_text_2 @ ?rest) = Some ?rest"
    by (simp add: object_text_2_def)
  show ?thesis
    using read_members_exact [OF assms, of r]
    by (simp add: read_object_def a b c)
qed

lemma read_object_spaces: "list_all is_space ws \<Longrightarrow> read_object (ws @ s) = read_object s"
  by (simp add: read_object_def skip_space_spaces)

lemma read_objects_spaces: "list_all is_space ws \<Longrightarrow> read_objects (ws @ s) = read_objects s"
  by (subst (1 2) read_objects.simps) (simp add: read_object_spaces)

lemma read_objects_exact:
  assumes "list_all (\<lambda>x. is_identifier (fst x) \<and> list_all is_identifier (snd x)) xs" and "xs \<noteq> []"
  shows "read_objects (shape_text xs @ script_text_2)
           = Some (map (\<lambda>x. (fst x, entries_of (fst x) (snd x))) xs)"
  using assms
proof (induction xs)
  case Nil
  then show ?case by simp
next
  case (Cons x xs)
  obtain i ns where x: "x = (i, ns)" by (cases x)
  with Cons.prems have i: "is_identifier i" and ns: "list_all is_identifier ns" by simp_all
  show ?case
  proof (cases xs)
    case Nil
    then show ?thesis
      using read_object_exact [OF i ns, of script_text_2] x
      by (subst read_objects.simps) (simp add: shape_text_def)
  next
    case (Cons y ys)
    have ih: "read_objects (shape_text xs @ script_text_2)
                = Some (map (\<lambda>x. (fst x, entries_of (fst x) (snd x))) xs)"
      using Cons.IH Cons.prems Cons by simp
    have split: "shape_text (x # xs) @ script_text_2
                   = interfaceDefinition i ns @ (nl @ shape_text xs @ script_text_2)"
      using Cons x by (simp add: shape_text_def)
    have differ: "nl @ shape_text xs @ script_text_2 \<noteq> script_text_2"
      using Cons by (cases ys) (simp_all add: shape_text_def interfaceDefinition_def object_text_1_def script_text_2_def nl_def)
    have "read_objects (nl @ shape_text xs @ script_text_2)
            = Some (map (\<lambda>x. (fst x, entries_of (fst x) (snd x))) xs)"
      using read_objects_spaces [of nl "shape_text xs @ script_text_2"] ih
      by (simp add: nl_def is_space_def)
    then show ?thesis
      using read_object_exact [OF i ns, of "nl @ shape_text xs @ script_text_2"] differ x
      unfolding split
      by (subst read_objects.simps) (simp add: nl_def)
  qed
qed

lemma script_text_1_nonempty: "script_text_1 \<noteq> []"
  by (simp add: script_text_1_def nl_def)

lemma script_empty_iff: "generateInjectionScript m = [] \<longleftrightarrow> interfaces m = []"
  by (simp add: generateInjectionScript_def map_keys_def Let_def script_text_1_nonempty)

lemma script_text:
  assumes "distinct (map fst (interfaces m))" and "interfaces m \<noteq> []"
  shows "generateInjectionScript m
           = script_text_1 @ shape_text (map (\<lambda>kv. (fst kv, map_keys (snd kv))) (interfaces m))
               @ script_text_2"
proof -
  have "methodNamesOf m (fst kv) = map_keys (snd kv)" if "kv \<in> set (interfaces m)" for kv
  proof -
    from that have "(fst kv, snd kv) \<in> set (interfaces m)" by simp
    from map_of_is_SomeI [OF assms(1) this] show ?thesis
      by (simp add: methodNamesOf_def map_get_def)
  qed
  then have eq: "map ((\<lambda>n. interfaceDefinition n (methodNamesOf m n)) \<circ> fst) (interfaces m)
               = map ((\<lambda>x. interfaceDefinition (fst x) (snd x)) \<circ> (\<lambda>kv. (fst kv, map fst (snd kv))))
                   (interfaces m)"
    by (intro map_ext) (simp add: map_keys_def)
  show ?thesis
    using assms(2)
    by (simp add: generateInjectionScript_def Let_def shape_text_def map_keys_def eq)
qed

lemma read_script_text: "read_script (script_text_1 @ s) = read_objects s"
  by (simp add: read_script_def script_text_1_nonempty expect_prefix)

lemma read_generated:
  assumes "distinct (map fst (interfaces m))"
    and "list_all (\<lambda>kv. is_identifier (fst kv) \<and> list_all is_identifier (map_keys (snd kv))) (interfaces m)"
  shows "read_script (generateInjectionScript m)
           = Some (map (\<lambda>kv. (fst kv, entries_of (fst kv) (map_keys (snd kv)))) (interfaces m))"
proof (cases "interfaces m = []")
  case True
  then show ?thesis
    by (simp add: script_empty_iff read_script_def)
next
  case False
  have "read_objects (shape_text (map (\<lambda>kv. (fst kv, map_keys (snd kv))) (interfaces m)) @ script_text_2)
          = Some (map (\<lambda>x. (fst x, entries_of (fst x) (snd x)))
                    (map (\<lambda>kv. (fst kv, map_keys (snd kv))) (interfaces m)))"
    using assms(2) False by (intro read_objects_exact) (simp_all add: list_all_iff)
  then show ?thesis
    by (simp add: script_text [OF assms(1) False] read_script_text comp_def)
qed

lemma map_set_fresh: "k \<notin> fst ` set m \<Longrightarrow> map_set k v m = m @ [(k, v)]"
  by (induction m) auto

lemma object_literal_stubs:
  assumes "distinct (map fst acc @ ns)" and "list_all plain_name ns"
  shows "object_literal (entries_of i ns) acc = acc @ map (\<lambda>n. (n, StubFunction i n)) ns"
  using assms
proof (induction ns arbitrary: acc)
  case Nil
  then show ?case by (simp add: entries_of_def)
next
  case (Cons n ns)
  have fresh: "n \<notin> fst ` set acc" using Cons.prems(1) by auto
  have plain: "n \<noteq> ''__proto__''" using Cons.prems(2) by (simp add: plain_name_def)
  have d: "distinct (map fst (acc @ [(n, StubFunction i n)]) @ ns)"
    using Cons.prems(1) by auto
  have "object_literal (entries_of i (n # ns)) acc
          = object_literal (entries_of i ns) (acc @ [(n, StubFunction i n)])"
    using plain map_set_fresh [OF fresh] by (simp add: entries_of_def)
  also have "\<dots> = (acc @ [(n, StubFunction i n)]) @ map (\<lambda>n. (n, StubFunction i n)) ns"
    using Cons.prems(2) by (intro Cons.IH [OF d]) simp
  finally show ?case by simp
qed

lemma run_statements_assigns:
  assumes "list_all (\<lambda>kv. plain_name (fst kv) \<and> fst kv \<notin> set reserved
                          \<and> list_all plain_name (map_keys (snd kv))
                          \<and> distinct (map_keys (snd kv))) kvs"
  shows "run_statements reserved (map (\<lambda>kv. (fst kv, entries_of (fst kv) (map_keys (snd kv)))) kvs) g
           = Some (assign_all (map (\<lambda>kv. (fst kv, stubs_of (fst kv) (map_keys (snd kv)))) kvs) g)"
  using assms
proof (induction kvs arbitrary: g)
  case Nil
  then show ?case by (simp add: assign_all_def)
next
  case (Cons kv kvs)
  have lit: "object_literal (entries_of (fst kv) (map_keys (snd kv))) []
               = stubs_of (fst kv) (map_keys (snd kv))"
    using object_literal_stubs [of "[]" "map_keys (snd kv)" "fst kv"] Cons.prems
    by (simp add: stubs_of_def)
  have "fst kv \<noteq> ''__proto__''" and "fst kv \<notin> set reserved"
    using Cons.prems by (simp_all add: plain_name_def)
  then show ?case
    using Cons.IH [of "map_set (fst kv) (stubs_of (fst kv) (map_keys (snd kv))) g"] Cons.prems lit
    by (simp add: assign_all_def)
qed

lemma map_of_assign_all:
  assumes "distinct (map fst objs)"
  shows "map_of (assign_all objs g) i = (case map_of objs i of None \<Rightarrow> map_of g i | Some obj \<Rightarrow> Some obj)"
  using assms
proof (induction objs arbitrary: g)
  case Nil
  then show ?case by (simp add: assign_all_def)
next
  case (Cons x objs)
  have step: "assign_all (x # objs) g = assign_all objs (map_set (fst x) (snd x) g)"
    by (simp add: assign_all_def)
  have ih: "map_of (assign_all objs (map_set (fst x) (snd x) g)) i
              = (case map_of objs i of None \<Rightarrow> map_of (map_set (fst x) (snd x) g) i | Some obj \<Rightarrow> Some obj)"
    using Cons.IH Cons.prems by simp
  have absent: "map_of objs (fst x) = None"
    using Cons.prems by (simp add: map_of_eq_None_iff)
  show ?case
    unfolding step ih
    using absent by (cases x) (auto simp: map_of_map_set split: option.splits)
qed

lemma set_map_set: "set (map_set k v m) \<subseteq> insert (k, v) (set m)"
  by (induction m) (auto split: if_splits)

lemma methods_distinct_add_interfaces:
  assumes "\<forall>kv \<in> set im. distinct (map fst (snd kv))"
  shows "\<forall>kv \<in> set (add_interfaces xs im). distinct (map fst (snd kv))"
  using assms
proof (induction xs arbitrary: im)
  case Nil
  then show ?case by simp
next
  case (Cons x xs)
  have "\<forall>kv \<in> set (map_set (iname x) (add_methods (methods x) []) im). distinct (map fst (snd kv))"
    using set_map_set [of "iname x" "add_methods (methods x) []" im] Cons.prems
      distinct_add_methods [of "[]" "methods x"]
    by auto
  from Cons.IH [OF this] show ?case by simp
qed

lemma configure_invariants:
  "distinct (map fst (interfaces (configure config m0)))"
  "\<forall>kv \<in> set (interfaces (configure config m0)). distinct (map_keys (snd kv))"
  using methods_distinct_add_interfaces [of "[]" "interfaces_cfg config"]
  by (simp_all add: configure_def distinct_add_interfaces map_keys_def)

lemma execute_configured:
  assumes "plain_registry reserved (configure config m0)"
  shows "execute_script reserved (generateInjectionScript (configure config m0)) g
           = Some (assign_all (registry_objects (configure config m0)) g)"
proof -
  let ?m = "configure config m0"
  have ids: "list_all (\<lambda>kv. is_identifier (fst kv) \<and> list_all is_identifier (map_keys (snd kv))) (interfaces ?m)"
    using assms by (auto simp: plain_registry_def plain_name_def list_all_iff)
  have all: "list_all (\<lambda>kv. plain_name (fst kv) \<and> fst kv \<notin> set reserved
                          \<and> list_all plain_name (map_keys (snd kv))
                          \<and> distinct (map_keys (snd kv))) (interfaces ?m)"
    using assms configure_invariants(2) [of config m0]
    by (auto simp: plain_registry_def list_all_iff)
  show ?thesis
    using read_generated [OF configure_invariants(1) ids] run_statements_assigns [OF all, of g]
    by (simp add: execute_script_def registry_objects_def)
qed

lemma map_of_stubs:
  "map_of (map (\<lambda>kv. (fst kv, stubs_of (fst kv) (map_keys (snd kv)))) kvs) i
     = map_option (\<lambda>mm. stubs_of i (map_keys mm)) (map_of kvs i)"
  by (induction kvs) auto

lemma lookup_configured:
  "map_of (assign_all (registry_objects (configure config m0)) g) i
     = (if hasInterface (configure config m0) i
        then Some (stubs_of i (methodNamesOf (configure config m0) i))
        else map_of g i)"
proof -
  let ?m = "configure config m0"
  have d: "distinct (map fst (registry_objects ?m))"
    using configure_invariants(1) [of config m0] by (simp add: registry_objects_def comp_def)
  show ?thesis
    using map_of_assign_all [OF d, of g i]
    by (auto simp: map_get_def map_has_def hasInterface_def methodNamesOf_def registry_objects_def
        map_of_stubs split: option.splits)
qed

text \<open>
  Claim C6 as stated fails for names that cannot be spliced into the text as they
  are.  For the interface name \<open>my-api\<close> the statement is
  \<open>window.my-api = {...};\<close>, which is not an assignment to a property of \<open>window\<close>:
  the script defines no global of that name.  For the method name \<open>__proto__\<close> the
  object literal sets the prototype of the new object, and the object has no
  property of that name.  For the interface name \<open>__proto__\<close> the assignment
  creates no property of \<open>window\<close>.
\<close>

theorem generateInjectionScript_names_counterexample:
  "getInterfaceNames (configure hyphen_config new_manager) = [''my-api'']
   \<and> execute_script [] (generateInjectionScript (configure hyphen_config new_manager)) [] = None
   \<and> methodNamesOf (configure proto_method_config new_manager) ''Api'' = [''__proto__'']
   \<and> execute_script [] (generateInjectionScript (configure proto_method_config new_manager)) []
       = Some [(''Api'', [])]
   \<and> getInterfaceNames (configure proto_interface_config new_manager) = [''__proto__'']
   \<and> execute_script [] (generateInjectionScript (configure proto_interface_config new_manager)) []
       = None"
proof -
  have h: "interfaces (configure hyphen_config new_manager) = [(''my-api'', [])]"
    by (simp add: configure_def hyphen_config_def)
  have pm: "interfaces (configure proto_method_config new_manager)
              = [(''Api'', [(''__proto__'', getToken)])]"
    by (simp add: configure_def proto_method_config_def)
  have pi: "interfaces (configure proto_interface_config new_manager) = [(''__proto__'', [])]"
    by (simp add: configure_def proto_interface_config_def)
  have proto: "is_identifier ''__proto__''" and api: "is_identifier ''Api''"
    by (simp_all add: is_identifier_def is_identifier_part_def is_digit_def)
  have a: "getInterfaceNames (configure hyphen_config new_manager) = [''my-api'']"
    by (simp add: getInterfaceNames_def map_keys_def h)
  have "read_object (interfaceDefinition ''my-api'' [] @ script_text_2) = None"
    by (simp add: read_object_def interfaceDefinition_def object_text_1_def object_text_2_def
        nl_def skip_space_def is_space_def read_identifier_def is_identifier_def
        is_identifier_part_def is_digit_def)
  then have "read_script (generateInjectionScript (configure hyphen_config new_manager)) = None"
    using script_text [of "configure hyphen_config new_manager"]
    by (simp add: h read_script_text shape_text_def map_keys_def)
      (subst read_objects.simps, simp)
  then have b: "execute_script [] (generateInjectionScript (configure hyphen_config new_manager)) [] = None"
    by (simp add: execute_script_def)
  have c: "methodNamesOf (configure proto_method_config new_manager) ''Api'' = [''__proto__'']"
    by (simp add: methodNamesOf_def map_get_def map_keys_def pm)
  have "read_script (generateInjectionScript (configure proto_method_config new_manager))
          = Some [(''Api'', [(''__proto__'', ''Api'', ''__proto__'')])]"
    using read_generated [of "configure proto_method_config new_manager"] proto api
    by (simp add: pm map_keys_def entries_of_def)
  then have d: "execute_script [] (generateInjectionScript (configure proto_method_config new_manager)) []
                  = Some [(''Api'', [])]"
    by (simp add: execute_script_def)
  have e: "getInterfaceNames (configure proto_interface_config new_manager) = [''__proto__'']"
    by (simp add: getInterfaceNames_def map_keys_def pi)
  have "read_script (generateInjectionScript (configure proto_interface_config new_manager))
          = Some [(''__proto__'', [])]"
    using read_generated [of "configure proto_interface_config new_manager"] proto
    by (simp add: pi map_keys_def entries_of_def)
  then have f: "execute_script [] (generateInjectionScript (configure proto_interface_config new_manager)) []
                  = None"
    by (simp add: execute_script_def)
  from a b c d e f show ?thesis by (simp only: simp_thms)
qed

text \<open>
  Claim C6, amended.  \<open>generateInjectionScript\<close> returns the empty string exactly when
  the registry has no interfaces.  For a registry that \<open>configure\<close> has built, whose
  interface names and method names are all identifiers other than \<open>__proto__\<close> and
  whose interface names the page's \<open>window\<close> object does not reserve, executing
  the text defines, for every interface name in the registry, a global of that
  name: an object whose properties are exactly the configured method names, in
  order, each the stub function of that interface and method.  The other globals
  of the page stay as they were.
\<close>

theorem generateInjectionScript_defines:
  "(generateInjectionScript m = [] \<longleftrightarrow> getInterfaceNames m = [])
   \<and> (plain_registry reserved (configure config m0)
      \<longrightarrow> execute_script reserved (generateInjectionScript (configure config m0)) g
            = Some (assign_all (registry_objects (configure config m0)) g)
          \<and> map_of (assign_all (registry_objects (configure config m0)) g) i
            = (if hasInterface (configure config m0) i
               then Some (stubs_of i (methodNamesOf (configure config m0) i))
               else map_of g i))"
  using execute_configured [of reserved config m0 g] lookup_configured [of config m0 g i]
    script_empty_iff [of m]
  by (simp add: getInterfaceNames_def map_keys_def)

theorem generateInjectionScript_defines_witness:
  "plain_registry [''location''] (configure example_config new_manager)
   \<and> execute_script [''location''] (generateInjectionScript (configure example_config new_manager)) []
       = Some [(''Android'', [(''getToken'', StubFunction ''Android'' ''getToken''),
                              (''fail'', StubFunction ''Android'' ''fail'')])]
   \<and> map_of (assign_all (registry_objects (configure example_config new_manager)) []) ''Android''
       = Some [(''getToken'', StubFunction ''Android'' ''getToken''),
               (''fail'', StubFunction ''Android'' ''fail'')]"
proof -
  have i: "interfaces (configure example_config new_manager)
             = [(''Android'', [(''getToken'', getToken), (''fail'', failing)])]"
    using example_interfaces by (simp add: example_manager_def)
  have h: "plain_registry [''location''] (configure example_config new_manager)"
    by (simp add: plain_registry_def plain_name_def i map_keys_def is_identifier_def
        is_identifier_part_def is_digit_def)
  have o: "assign_all (registry_objects (configure example_config new_manager)) []
             = [(''Android'', [(''getToken'', StubFunction ''Android'' ''getToken''),
                               (''fail'', StubFunction ''Android'' ''fail'')])]"
    by (simp add: assign_all_def registry_objects_def i stubs_of_def map_keys_def)
  have n: "hasInterface (configure example_config new_manager) ''Android''"
    and k: "methodNamesOf (configure example_config new_manager) ''Android'' = [''getToken'', ''fail'']"
    by (simp_all add: hasInterface_def map_has_def methodNamesOf_def map_get_def map_keys_def i)
  show ?thesis
    using h generateInjectionScript_defines
      [of example_manager "[''location'']" example_config new_manager "[]" "''Android''"]
    by (simp add: o n k stubs_of_def)
qed

end
